theory Spec2Isabelle
  imports Complex_Main
begin

section \<open>JavaScript numbers\<close>

text \<open>
  The server computes with IEEE doubles. The model keeps the non-finite values, since the
  code produces them (a division by zero, \<^verbatim>\<open>parseFloat("Infinity")\<close>) and tests for only
  one of them (\<^verbatim>\<open>isNaN\<close>), and takes a finite double to be the real number it stands for:
  rounding to 53 bits, overflow and underflow are not modelled. There is one zero, read as
  \<^verbatim>\<open>+0\<close>; the one place of the code where the sign of a zero decides a result (a rate
  rounded to \<^verbatim>\<open>-0\<close>) carries the sign separately.
\<close>

datatype jsnum = Num real | PosInfinity | NegInfinity | NaN

fun isNaN :: "jsnum \<Rightarrow> bool" where
  "isNaN NaN = True"
| "isNaN _ = False"

text \<open>\<^verbatim>\<open>a <= b\<close> and \<^verbatim>\<open>a < b\<close>; \<^verbatim>\<open>a >= b\<close> is \<open>js_le b a\<close>. Every comparison with NaN is false.\<close>

fun js_le :: "jsnum \<Rightarrow> jsnum \<Rightarrow> bool" where
  "js_le NaN _ = False"
| "js_le _ NaN = False"
| "js_le NegInfinity _ = True"
| "js_le _ PosInfinity = True"
| "js_le (Num a) (Num b) = (a \<le> b)"
| "js_le PosInfinity _ = False"
| "js_le (Num a) NegInfinity = False"

fun js_lt :: "jsnum \<Rightarrow> jsnum \<Rightarrow> bool" where
  "js_lt NaN _ = False"
| "js_lt _ NaN = False"
| "js_lt PosInfinity _ = False"
| "js_lt _ NegInfinity = False"
| "js_lt (Num a) (Num b) = (a < b)"
| "js_lt NegInfinity _ = True"
| "js_lt (Num a) PosInfinity = True"

fun js_neg :: "jsnum \<Rightarrow> jsnum" where
  "js_neg (Num a) = Num (- a)"
| "js_neg PosInfinity = NegInfinity"
| "js_neg NegInfinity = PosInfinity"
| "js_neg NaN = NaN"

fun js_add :: "jsnum \<Rightarrow> jsnum \<Rightarrow> jsnum" where
  "js_add NaN _ = NaN"
| "js_add _ NaN = NaN"
| "js_add (Num a) (Num b) = Num (a + b)"
| "js_add PosInfinity NegInfinity = NaN"
| "js_add NegInfinity PosInfinity = NaN"
| "js_add PosInfinity _ = PosInfinity"
| "js_add NegInfinity _ = NegInfinity"
| "js_add (Num a) b = b"

definition js_sub :: "jsnum \<Rightarrow> jsnum \<Rightarrow> jsnum" where
  "js_sub a b = js_add a (js_neg b)"

text \<open>The sign of a number that is not NaN: \<open>-1\<close>, \<open>0\<close> or \<open>1\<close>.\<close>

fun js_sgn :: "jsnum \<Rightarrow> int" where
  "js_sgn (Num a) = (if a < 0 then - 1 else if a = 0 then 0 else 1)"
| "js_sgn PosInfinity = 1"
| "js_sgn NegInfinity = - 1"
| "js_sgn NaN = 0"

definition js_inf :: "int \<Rightarrow> jsnum" where
  "js_inf s = (if s < 0 then NegInfinity else if s = 0 then NaN else PosInfinity)"

fun js_mul :: "jsnum \<Rightarrow> jsnum \<Rightarrow> jsnum" where
  "js_mul NaN _ = NaN"
| "js_mul _ NaN = NaN"
| "js_mul (Num a) (Num b) = Num (a * b)"
| "js_mul a b = js_inf (js_sgn a * js_sgn b)"

fun js_div :: "jsnum \<Rightarrow> jsnum \<Rightarrow> jsnum" where
  "js_div NaN _ = NaN"
| "js_div _ NaN = NaN"
| "js_div (Num a) (Num b) = (if b = 0 then js_inf (js_sgn (Num a)) else Num (a / b))"
| "js_div (Num a) _ = Num 0"
| "js_div a (Num b) = (if b < 0 then js_neg a else a)"
| "js_div _ _ = NaN"

section \<open>Errors\<close>

text \<open>
  The classes of the source: \<^verbatim>\<open>APIError(message, statusCode)\<close>, its subclasses
  \<^verbatim>\<open>ValidationError\<close> (400) and \<^verbatim>\<open>ExternalAPIError\<close> (503), a plain \<^verbatim>\<open>Error\<close>, and the
  TypeError the runtime raises on a property read of \<^verbatim>\<open>undefined\<close> or \<^verbatim>\<open>null\<close>.
\<close>

datatype error =
    APIError string nat
  | ValidationError string
  | ExternalAPIError string
  | JsError string
  | TypeError string

fun message :: "error \<Rightarrow> string" where
  "message (APIError m c) = m"
| "message (ValidationError m) = m"
| "message (ExternalAPIError m) = m"
| "message (JsError m) = m"
| "message (TypeError m) = m"

section \<open>Decoded JSON\<close>

text \<open>
  What \<^verbatim>\<open>JSON.parse\<close> returns. A string is a list of code units below 256; an object is
  its list of own properties. A property read gives \<open>None\<close> for \<^verbatim>\<open>undefined\<close>.
\<close>

datatype json =
    JNull
  | JBool bool
  | JNum jsnum
  | JStr string
  | JArr "json list"
  | JObj "(string \<times> json) list"

text \<open>
  \<^verbatim>\<open>v.k\<close> for \<open>k\<close> one of the property names the server reads (none of them is a
  property of a string, an array, a number or a boolean). The read raises on \<^verbatim>\<open>null\<close>.
\<close>

fun js_get :: "json \<Rightarrow> string \<Rightarrow> json option" where
  "js_get (JObj kvs) k = map_of kvs k"
| "js_get _ k = None"

definition js_read :: "json \<Rightarrow> string \<Rightarrow> error + json option" where
  "js_read v k =
    (if v = JNull
       then Inl (TypeError (''Cannot read properties of null (reading '' @ k @ '')''))
     else Inr (js_get v k))"

fun truthy :: "json option \<Rightarrow> bool" where
  "truthy None = False"
| "truthy (Some JNull) = False"
| "truthy (Some (JBool b)) = b"
| "truthy (Some (JNum n)) = (\<not> isNaN n \<and> n \<noteq> Num 0)"
| "truthy (Some (JStr s)) = (s \<noteq> [])"
| "truthy (Some (JArr xs)) = True"
| "truthy (Some (JObj kvs)) = True"

text \<open>\<^verbatim>\<open>a || b\<close> on values: \<open>a\<close> when it is truthy, else \<open>b\<close>.\<close>

definition js_or :: "json option \<Rightarrow> json option \<Rightarrow> json option" where
  "js_or a b = (if truthy a then a else b)"

subsection \<open>parseFloat\<close>

definition is_digit :: "char \<Rightarrow> bool" where
  "is_digit c = (48 \<le> (of_char c :: nat) \<and> (of_char c :: nat) \<le> 57)"

definition digit_val :: "char \<Rightarrow> nat" where
  "digit_val c = of_char c - 48"

definition digits_val :: "string \<Rightarrow> nat" where
  "digits_val ds = foldl (\<lambda>a c. 10 * a + digit_val c) 0 ds"

text \<open>White space and line terminators below 256: TAB, LF, VT, FF, CR, SP, NBSP.\<close>

definition is_space :: "char \<Rightarrow> bool" where
  "is_space c = ((of_char c :: nat) \<in> {9, 10, 11, 12, 13, 32, 160})"

definition pow10 :: "int \<Rightarrow> real" where
  "pow10 e = (if 0 \<le> e then 10 ^ nat e else 1 / 10 ^ nat (- e))"

text \<open>
  The value of the exponent part that starts the string, 0 when there is none
  (\<^verbatim>\<open>e\<close> or \<^verbatim>\<open>E\<close>, an optional sign, at least one digit).
\<close>

definition exponent_part :: "string \<Rightarrow> int" where
  "exponent_part s =
    (case s of
       [] \<Rightarrow> 0
     | c # t \<Rightarrow>
        if c = CHR ''e'' \<or> c = CHR ''E'' then
          (case t of
             [] \<Rightarrow> 0
           | d # u \<Rightarrow>
              if d = CHR ''-'' then - int (digits_val (takeWhile is_digit u))
              else if d = CHR ''+'' then int (digits_val (takeWhile is_digit u))
              else int (digits_val (takeWhile is_digit t)))
        else 0)"

text \<open>
  The longest prefix that is an unsigned decimal literal of the grammar of \<^verbatim>\<open>parseFloat\<close>:
  \<^verbatim>\<open>Infinity\<close>, or digits with an optional fraction and exponent, or a fraction that
  starts with the point. NaN when there is none.
\<close>

definition str_unsigned :: "string \<Rightarrow> jsnum" where
  "str_unsigned s =
    (if take 8 s = ''Infinity'' then PosInfinity
     else
       let ip = takeWhile is_digit s;
           r = dropWhile is_digit s;
           dot = (case r of [] \<Rightarrow> False | c # t \<Rightarrow> c = CHR ''.'');
           fp = (if dot then takeWhile is_digit (tl r) else []);
           r2 = (if dot then dropWhile is_digit (tl r) else r)
       in if ip = [] \<and> fp = [] then NaN
          else Num ((real (digits_val ip) + real (digits_val fp) / 10 ^ length fp)
                    * pow10 (exponent_part r2)))"

definition parseFloat_str :: "string \<Rightarrow> jsnum" where
  "parseFloat_str s =
    (case dropWhile is_space s of
       [] \<Rightarrow> NaN
     | c # r \<Rightarrow>
        if c = CHR ''-'' then js_neg (str_unsigned r)
        else if c = CHR ''+'' then str_unsigned r
        else str_unsigned (c # r))"

text \<open>
  \<^verbatim>\<open>parseFloat(v)\<close> converts \<open>v\<close> to a string first. A number is read back as itself;
  \<^verbatim>\<open>undefined\<close>, \<^verbatim>\<open>null\<close>, a boolean and an object give text that is no number; an array
  gives its elements joined by commas, of which only the first can be read
  (\<^verbatim>\<open>null\<close> is joined as the empty string).
\<close>

fun parseFloat_json :: "json \<Rightarrow> jsnum" where
  "parseFloat_json (JStr s) = parseFloat_str s"
| "parseFloat_json (JNum n) = n"
| "parseFloat_json (JArr (x # xs)) = parseFloat_json x"
| "parseFloat_json _ = NaN"

definition parseFloat :: "json option \<Rightarrow> jsnum" where
  "parseFloat v = (case v of None \<Rightarrow> NaN | Some x \<Rightarrow> parseFloat_json x)"

subsection \<open>parseInt\<close>

text \<open>A natural number in decimal, as \<^verbatim>\<open>String(n)\<close> writes it.\<close>

function decimal :: "nat \<Rightarrow> string" where
  "decimal n =
    (if n < 10 then [''0123456789'' ! n]
     else decimal (n div 10) @ [''0123456789'' ! (n mod 10)])"
  by pat_completeness auto
termination
  by (relation "measure id") auto

declare decimal.simps [simp del]

definition is_hex :: "char \<Rightarrow> bool" where
  "is_hex c = (is_digit c \<or> (65 \<le> (of_char c :: nat) \<and> (of_char c :: nat) \<le> 70)
     \<or> (97 \<le> (of_char c :: nat) \<and> (of_char c :: nat) \<le> 102))"

definition hex_val :: "char \<Rightarrow> nat" where
  "hex_val c = (if is_digit c then of_char c - 48
     else if (of_char c :: nat) \<le> 70 then of_char c - 55 else of_char c - 87)"

text \<open>
  An unsigned integer literal: radix 16 after \<^verbatim>\<open>0x\<close> or \<^verbatim>\<open>0X\<close>, radix 10 otherwise;
  \<open>None\<close> is NaN (no digit).
\<close>

definition int_unsigned :: "string \<Rightarrow> int option" where
  "int_unsigned s =
    (if take 2 s = ''0x'' \<or> take 2 s = ''0X'' then
       (if takeWhile is_hex (drop 2 s) = [] then None
        else Some (int (foldl (\<lambda>a c. 16 * a + hex_val c) 0 (takeWhile is_hex (drop 2 s)))))
     else if takeWhile is_digit s = [] then None
     else Some (int (digits_val (takeWhile is_digit s))))"

definition parseInt_str :: "string \<Rightarrow> int option" where
  "parseInt_str s =
    (case dropWhile is_space s of
       [] \<Rightarrow> None
     | c # r \<Rightarrow>
        if c = CHR ''-'' then map_option uminus (int_unsigned r)
        else if c = CHR ''+'' then int_unsigned r
        else int_unsigned (c # r))"

text \<open>
  The first digit of a positive number written in exponent notation, which is how a
  number of magnitude at least \<open>10^21\<close> or below \<open>10^-6\<close> is converted to a string.
\<close>

definition leading_digit :: "real \<Rightarrow> int" where
  "leading_digit x =
    (if 1 \<le> x then int (digit_val (hd (decimal (nat \<lfloor>x\<rfloor>))))
     else let d = length (decimal (nat \<lfloor>1 / x\<rfloor>))
          in if x * 10 ^ (d - 1) = 1 then 1 else \<lfloor>x * 10 ^ d\<rfloor>)"

definition parseInt_num :: "jsnum \<Rightarrow> int option" where
  "parseInt_num n =
    (case n of
       Num x \<Rightarrow>
        if x = 0 then Some 0
        else if 10 ^ 21 \<le> \<bar>x\<bar> \<or> \<bar>x\<bar> < 1 / 10 ^ 6
          then Some ((if x < 0 then - 1 else 1) * leading_digit \<bar>x\<bar>)
        else Some (if 0 \<le> x then \<lfloor>x\<rfloor> else - \<lfloor>- x\<rfloor>)
     | _ \<Rightarrow> None)"

fun parseInt_json :: "json \<Rightarrow> int option" where
  "parseInt_json (JStr s) = parseInt_str s"
| "parseInt_json (JNum n) = parseInt_num n"
| "parseInt_json (JArr (x # xs)) = parseInt_json x"
| "parseInt_json _ = None"

definition parseInt :: "json option \<Rightarrow> int option" where
  "parseInt v = (case v of None \<Rightarrow> None | Some x \<Rightarrow> parseInt_json x)"

section \<open>HTTP helper and fetchers\<close>

text \<open>
  What one \<^verbatim>\<open>https.request\<close> can end with: the \<^verbatim>\<open>error\<close> event, the timeout, or a
  response with its status code and body, \<open>None\<close> when decompression or \<^verbatim>\<open>JSON.parse\<close>
  throws. The latency and call counters \<^verbatim>\<open>httpRequest\<close> keeps are left out: nothing reads
  them back.
\<close>

datatype http_outcome =
    NetworkError string
  | Timeout
  | Response nat "json option"

definition httpRequest :: "http_outcome \<Rightarrow> error + json" where
  "httpRequest out =
    (case out of
       NetworkError m \<Rightarrow> Inl (ExternalAPIError ''Network request failed'')
     | Timeout \<Rightarrow> Inl (ExternalAPIError ''Request timeout'')
     | Response code None \<Rightarrow> Inl (ExternalAPIError ''Failed to parse response'')
     | Response code (Some data) \<Rightarrow>
        if 200 \<le> code \<and> code < 300 then Inr data
        else Inl (ExternalAPIError (''HTTP '' @ decimal code)))"

definition fetchBinanceSpot :: "http_outcome \<Rightarrow> error + jsnum" where
  "fetchBinanceSpot out =
    (case httpRequest out of
       Inl e \<Rightarrow> Inl e
     | Inr data \<Rightarrow>
        if \<not> truthy (Some data) then Inl (ExternalAPIError ''Invalid Binance Spot response'')
        else
          (case js_read data ''price'' of
             Inl e \<Rightarrow> Inl e
           | Inr pv \<Rightarrow>
              if \<not> truthy pv then Inl (ExternalAPIError ''Invalid Binance Spot response'')
              else
                let price = parseFloat pv
                in if isNaN price \<or> js_le price (Num 0)
                     then Inl (ExternalAPIError ''Invalid price in Binance Spot response'')
                   else Inr price))"

fun isFinite :: "jsnum \<Rightarrow> bool" where
  "isFinite (Num x) = True"
| "isFinite _ = False"

text \<open>The result of \<^verbatim>\<open>fetchCoinGecko\<close>: each rate is a number or \<^verbatim>\<open>null\<close>.\<close>

record coingecko =
  cg_inr :: "jsnum option"
  cg_ngn :: "jsnum option"

text \<open>
  \<^verbatim>\<open>if (data.tether.x) { const price = parseFloat(data.tether.x);
  result.x = !isNaN(price) && price > 0 ? price : null; }\<close>
\<close>

definition gecko_price :: "json option \<Rightarrow> jsnum option" where
  "gecko_price v =
    (if truthy v then
       (let price = parseFloat v
        in if \<not> isNaN price \<and> js_lt (Num 0) price then Some price else None)
     else None)"

definition fetchCoinGecko :: "http_outcome \<Rightarrow> error + coingecko" where
  "fetchCoinGecko out =
    (case httpRequest out of
       Inl e \<Rightarrow> Inl e
     | Inr data \<Rightarrow>
        if \<not> truthy (Some data) then Inl (ExternalAPIError ''Invalid CoinGecko response'')
        else
          (case js_read data ''tether'' of
             Inl e \<Rightarrow> Inl e
           | Inr None \<Rightarrow> Inl (ExternalAPIError ''Invalid CoinGecko response'')
           | Inr (Some tether) \<Rightarrow>
              if \<not> truthy (Some tether) then Inl (ExternalAPIError ''Invalid CoinGecko response'')
              else Inr \<lparr>cg_inr = gecko_price (js_get tether ''inr''),
                        cg_ngn = gecko_price (js_get tether ''ngn'')\<rparr>))"

text \<open>
  \<^verbatim>\<open>retryableRequest(requestFn, retries, delay)\<close>: attempt \<open>i\<close> with \<open>k\<close> attempts left.
  The last failure is raised; a loop that never runs (no attempt allowed) returns
  \<^verbatim>\<open>undefined\<close>. The waits between the attempts are not modelled.
\<close>

fun retryableRequest :: "(nat \<Rightarrow> error + json) \<Rightarrow> nat \<Rightarrow> nat \<Rightarrow> error + json option" where
  "retryableRequest requestFn i 0 = Inr None"
| "retryableRequest requestFn i (Suc k) =
    (case requestFn i of
       Inr d \<Rightarrow> Inr (Some d)
     | Inl e \<Rightarrow> if k = 0 then Inl e else retryableRequest requestFn (Suc i) k)"

text \<open>\<open>outs i\<close> is what the request of attempt \<open>i\<close> ends with.\<close>

definition fetchBinanceP2P :: "nat \<Rightarrow> (nat \<Rightarrow> http_outcome) \<Rightarrow> error + json" where
  "fetchBinanceP2P maxRetries outs =
    (case retryableRequest (\<lambda>i. httpRequest (outs i)) 0 maxRetries of
       Inl e \<Rightarrow> Inl e
     | Inr None \<Rightarrow> Inl (ExternalAPIError ''No P2P data available'')
     | Inr (Some data) \<Rightarrow>
        if \<not> truthy (Some data) then Inl (ExternalAPIError ''No P2P data available'')
        else
          (case js_get data ''data'' of
             Some (JArr items) \<Rightarrow>
               if items = [] then Inl (ExternalAPIError ''No P2P data available'') else Inr data
           | _ \<Rightarrow> Inl (ExternalAPIError ''No P2P data available'')))"

section \<open>P2P analyzer\<close>

text \<open>One entry of \<^verbatim>\<open>config.filters\<close>.\<close>

record filter_cfg =
  minTrades :: int
  minCompletion :: real
  minQty :: real
  minPrice :: real
  maxPrice :: real

definition strict_default :: filter_cfg where
  "strict_default =
    \<lparr>minTrades = 300, minCompletion = 90, minQty = 500, minPrice = 70, maxPrice = 120\<rparr>"

definition relaxed_default :: filter_cfg where
  "relaxed_default =
    \<lparr>minTrades = 100, minCompletion = 85, minQty = 100, minPrice = 70, maxPrice = 120\<rparr>"

text \<open>The object the parsing loop pushes for an entry it keeps.\<close>

record ad =
  price :: jsnum
  qty :: jsnum
  trades :: int
  completion :: jsnum
  nickname :: json
  userNo :: json

text \<open>\<^verbatim>\<open>v || d\<close> for a default \<open>d\<close> that is a value.\<close>

definition js_or_else :: "json option \<Rightarrow> json \<Rightarrow> json" where
  "js_or_else v d = (case v of None \<Rightarrow> d | Some x \<Rightarrow> if truthy (Some x) then x else d)"

text \<open>
  The body of the loop over \<^verbatim>\<open>data.data\<close>: \<open>None\<close> where the source runs \<^verbatim>\<open>continue\<close>,
  which it also does in the \<^verbatim>\<open>catch\<close> when \<^verbatim>\<open>item\<close> is \<^verbatim>\<open>null\<close> and \<^verbatim>\<open>item.adv\<close>
  raises. \<^verbatim>\<open>adv\<close> and \<^verbatim>\<open>seller\<close> are truthy when their properties are read, so these reads
  cannot raise.
\<close>

definition parse_ad :: "json \<Rightarrow> ad option" where
  "parse_ad item =
    (case js_read item ''adv'' of
       Inl e \<Rightarrow> None
     | Inr None \<Rightarrow> None
     | Inr (Some adv) \<Rightarrow>
        if \<not> truthy (Some adv) then None
        else
          (case js_get item ''advertiser'' of
             None \<Rightarrow> None
           | Some seller \<Rightarrow>
              if \<not> truthy (Some seller) then None
              else
                let p = parseFloat (js_get adv ''price'')
                in if isNaN p \<or> js_le p (Num 0) then None
                   else
                     let q = parseFloat
                               (js_or (js_or (js_get adv ''surplusAmount'')
                                             (js_get adv ''tradableQuantity''))
                                      (Some (JNum (Num 0))))
                     in if isNaN q then None
                        else
                          let t = (case parseInt (js_get seller ''monthOrderCount'') of
                                     None \<Rightarrow> 0 | Some n \<Rightarrow> n);
                              c0 = parseFloat (js_get seller ''monthFinishRate'');
                              c = (if isNaN c0 \<or> c0 = Num 0 then Num 0 else c0);
                              c' = (if js_lt (Num 0) c \<and> js_le c (Num 1)
                                      then js_mul c (Num 100) else c)
                          in Some \<lparr>price = p, qty = q, trades = t, completion = c',
                                   nickname = js_or_else (js_get seller ''nickName'')
                                                (JStr ''Unknown''),
                                   userNo = js_or_else (js_get seller ''userNo'') JNull\<rparr>))"

text \<open>The predicate of \<^verbatim>\<open>ads.filter\<close>, for the strict and for the relaxed thresholds.\<close>

definition passes :: "filter_cfg \<Rightarrow> ad \<Rightarrow> bool" where
  "passes f a =
    (minTrades f \<le> trades a
     \<and> js_le (Num (minCompletion f)) (completion a)
     \<and> js_le (Num (minQty f)) (qty a)
     \<and> js_le (Num (minPrice f)) (price a)
     \<and> js_le (price a) (Num (maxPrice f)))"

text \<open>
  \<^verbatim>\<open>filtered.sort((a, b) => a.price - b.price)\<close>. The sort of the runtime is stable; on
  the finite prices the filters let through it returns what this insertion sort returns,
  which puts an ad behind those with a smaller price only.
\<close>

fun insert_by_price :: "ad \<Rightarrow> ad list \<Rightarrow> ad list" where
  "insert_by_price a [] = [a]"
| "insert_by_price a (b # bs) =
    (if js_lt (js_sub (price b) (price a)) (Num 0) then b # insert_by_price a bs
     else a # b # bs)"

definition sort_by_price :: "ad list \<Rightarrow> ad list" where
  "sort_by_price xs = foldr insert_by_price xs []"

text \<open>
  The result of the analysis. \<^verbatim>\<open>topAds\<close> holds the five ads themselves: the source copies
  their fields and formats \<^verbatim>\<open>completion\<close> as text, which nothing computes with.
\<close>

record p2p_stats =
  totalAds :: nat
  goodAds :: nat
  lowestRate :: jsnum
  simpleAvg :: jsnum
  weightedAvg :: jsnum
  topAds :: "ad list"

definition totalWeight :: "ad list \<Rightarrow> jsnum" where
  "totalWeight top5 = foldl (\<lambda>s a. js_add s (qty a)) (Num 0) top5"

definition weighted_average :: "ad list \<Rightarrow> jsnum" where
  "weighted_average top5 =
    foldl (\<lambda>s a. js_add s (js_div (js_mul (price a) (qty a)) (totalWeight top5))) (Num 0) top5"

definition simple_average :: "ad list \<Rightarrow> jsnum" where
  "simple_average top5 =
    js_div (foldl (\<lambda>s a. js_add s (price a)) (Num 0) top5) (Num (real (length top5)))"

text \<open>
  \<^verbatim>\<open>filtered\<close> when the analysis goes on: the ads that pass the strict filter, or, when
  there is none, those that pass the relaxed one.
\<close>

definition quality_ads :: "filter_cfg \<Rightarrow> filter_cfg \<Rightarrow> ad list \<Rightarrow> ad list" where
  "quality_ads strict relaxed ads =
    (if filter (passes strict) ads = [] then filter (passes relaxed) ads
     else filter (passes strict) ads)"

text \<open>The analysis after the parsing loop.\<close>

definition analyze_ads :: "filter_cfg \<Rightarrow> filter_cfg \<Rightarrow> ad list \<Rightarrow> error + p2p_stats" where
  "analyze_ads strict relaxed ads =
    (if ads = [] then Inl (ExternalAPIError ''No valid P2P ads found'')
     else
       let filtered = quality_ads strict relaxed ads
       in if filtered = [] then Inl (ExternalAPIError ''No P2P ads meet quality criteria'')
          else
            let top5 = take 5 (sort_by_price filtered)
            in (case top5 of
                  [] \<Rightarrow> Inl (TypeError ''Cannot read properties of undefined (reading price)'')
                | first # rest \<Rightarrow>
                   Inr \<lparr>totalAds = length ads, goodAds = length filtered,
                        lowestRate = price first,
                        simpleAvg = simple_average top5,
                        weightedAvg = weighted_average top5,
                        topAds = top5\<rparr>))"

definition analyzeP2P :: "filter_cfg \<Rightarrow> filter_cfg \<Rightarrow> json \<Rightarrow> error + p2p_stats" where
  "analyzeP2P strict relaxed data =
    (if \<not> truthy (Some data) then Inl (ExternalAPIError ''Invalid P2P data for analysis'')
     else
       (case js_get data ''data'' of
          Some (JArr items) \<Rightarrow>
            if items = [] then Inl (ExternalAPIError ''Invalid P2P data for analysis'')
            else analyze_ads strict relaxed (List.map_filter parse_ad items)
        | _ \<Rightarrow> Inl (ExternalAPIError ''Invalid P2P data for analysis'')))"

section \<open>Fee calculator\<close>

text \<open>
  A tier of \<^verbatim>\<open>config.fees.tiers\<close>. Its \<^verbatim>\<open>max\<close> is a number, \<^verbatim>\<open>Infinity\<close> for the last
  tier of src/script.js. The older server (src/unnamed/part\_002) builds the table with
  \<^verbatim>\<open>JSON.parse(JSON.stringify(...))\<close>, which writes \<^verbatim>\<open>Infinity\<close> as \<^verbatim>\<open>null\<close>:
  \<open>None\<close> is that \<^verbatim>\<open>null\<close>, and \<^verbatim>\<open>amount <= null\<close> compares with 0.
\<close>

record tier =
  tier_max :: "jsnum option"
  tier_percent :: real

record fees =
  feePercent :: real
  feeAmount :: jsnum
  netAmount :: jsnum

definition tier_bound :: "tier \<Rightarrow> jsnum" where
  "tier_bound t = (case tier_max t of None \<Rightarrow> Num 0 | Some m \<Rightarrow> m)"

definition tiers_script :: "tier list" where
  "tiers_script =
    [\<lparr>tier_max = Some (Num 10000), tier_percent = 2.5\<rparr>,
     \<lparr>tier_max = Some (Num 50000), tier_percent = 2.0\<rparr>,
     \<lparr>tier_max = Some (Num 100000), tier_percent = 1.5\<rparr>,
     \<lparr>tier_max = Some (Num 500000), tier_percent = 1.0\<rparr>,
     \<lparr>tier_max = Some PosInfinity, tier_percent = 0.75\<rparr>]"

definition tiers_part002 :: "tier list" where
  "tiers_part002 =
    [\<lparr>tier_max = Some (Num 10000), tier_percent = 2.5\<rparr>,
     \<lparr>tier_max = Some (Num 50000), tier_percent = 2.0\<rparr>,
     \<lparr>tier_max = Some (Num 100000), tier_percent = 1.5\<rparr>,
     \<lparr>tier_max = Some (Num 500000), tier_percent = 1.0\<rparr>,
     \<lparr>tier_max = None, tier_percent = 0.75\<rparr>]"

text \<open>The body of the loop's \<^verbatim>\<open>if\<close>, which is also what the code after the loop computes.\<close>

definition tier_fees :: "tier \<Rightarrow> jsnum \<Rightarrow> fees" where
  "tier_fees t amount =
    (let fee = js_div (js_mul amount (Num (tier_percent t))) (Num 100)
     in \<lparr>feePercent = tier_percent t, feeAmount = fee, netAmount = js_sub amount fee\<rparr>)"

text \<open>\<^verbatim>\<open>for (const tier of config.fees.tiers) if (amount <= tier.max) return ...\<close>\<close>

fun first_tier :: "tier list \<Rightarrow> jsnum \<Rightarrow> tier option" where
  "first_tier [] amount = None"
| "first_tier (t # ts) amount =
    (if js_le amount (tier_bound t) then Some t else first_tier ts amount)"

text \<open>
  When no tier matches, the code reads the last tier; on an empty table that read is
  \<^verbatim>\<open>undefined\<close> and \<^verbatim>\<open>lastTier.percent\<close> raises.
\<close>

definition calculateFees :: "tier list \<Rightarrow> jsnum \<Rightarrow> error + fees" where
  "calculateFees tiers amount =
    (case first_tier tiers amount of
       Some t \<Rightarrow> Inr (tier_fees t amount)
     | None \<Rightarrow>
        (if tiers = [] then Inl (TypeError ''Cannot read properties of undefined (reading 'percent')'')
         else Inr (tier_fees (last tiers) amount)))"

section \<open>Pricing engine\<close>

text \<open>\<^verbatim>\<open>config.pricing\<close> of src/script.js.\<close>

record pricing_cfg =
  minProfitMargin :: real
  ngnMarkup :: real
  localRateMin :: real
  localRateMax :: real
  discountRangeMin :: real
  discountRangeMax :: real
  targetProfitMargin :: real

definition pricing_script :: pricing_cfg where
  "pricing_script =
    \<lparr>minProfitMargin = 0.8, ngnMarkup = 20, localRateMin = 16.2, localRateMax = 16.5,
     discountRangeMin = 15.85, discountRangeMax = 15.98, targetProfitMargin = 2.5\<rparr>"

text \<open>
  \<^verbatim>\<open>Math.round(x * 100) / 100\<close>. \<^verbatim>\<open>Math.round\<close> rounds half up; it returns \<^verbatim>\<open>-0\<close> on
  \<open>[-0.5, 0)\<close>, and the second component says so: the result is then the zero whose
  reciprocal is \<^verbatim>\<open>-Infinity\<close>.
\<close>

fun round2 :: "jsnum \<Rightarrow> jsnum \<times> bool" where
  "round2 (Num x) = (Num (real_of_int \<lfloor>x * 100 + 1 / 2\<rfloor> / 100), - (1 / 2) \<le> x * 100 \<and> x * 100 < 0)"
| "round2 n = (n, False)"

text \<open>\<^verbatim>\<open>a / b\<close> where \<open>b\<close> may be the negative zero (\<open>negz\<close>).\<close>

definition js_div_z :: "jsnum \<Rightarrow> jsnum \<times> bool \<Rightarrow> jsnum" where
  "js_div_z a b = (if snd b \<and> fst b = Num 0 then js_neg (js_div a (fst b)) else js_div a (fst b))"

text \<open>\<^verbatim>\<open>((rate - cost) / rate) * 100\<close>\<close>

definition margin_pct :: "jsnum \<times> bool \<Rightarrow> jsnum \<Rightarrow> jsnum" where
  "margin_pct rate cost = js_mul (js_div_z (js_sub (fst rate) cost) rate) (Num 100)"

record pricing_result =
  baseCost :: jsnum
  targetRate :: jsnum
  profitMargin :: jsnum
  savingsVsMin :: jsnum
  savingsVsMax :: jsnum
  savingsPercent :: jsnum
  usedCoinGeckoFallback :: bool
  rateSource :: string
  warning :: "string option"

text \<open>
  \<^verbatim>\<open>calculateCompetitiveRate(lowestInrRate, ngnRate, coinGeckoInr = null)\<close> of
  src/script.js, its three \<^verbatim>\<open>return\<close> statements first. \<open>r1\<close> and \<open>r2\<close> are what the two
  calls of \<^verbatim>\<open>Math.random()\<close> return, in \<open>[0, 1)\<close>; \<open>None\<close> is a \<^verbatim>\<open>coinGeckoInr\<close> that is
  \<^verbatim>\<open>null\<close> or \<^verbatim>\<open>undefined\<close>. The result leaves out \<^verbatim>\<open>localRateMin\<close> and \<^verbatim>\<open>localRateMax\<close>,
  copies of the configuration, and the two fallback counters the function increments.
\<close>

text \<open>The CoinGecko fallback: the target margin with a jitter, then the forced minimum.\<close>

definition fallback_result :: "pricing_cfg \<Rightarrow> real \<Rightarrow> jsnum \<Rightarrow> jsnum \<Rightarrow> pricing_result" where
  "fallback_result cfg r2 ngnRate cg =
    (let coinGeckoBaseCost = js_div ngnRate cg;
         targetMultiplier = 1 + targetProfitMargin cfg / 100;
         microAdjustment = r2 * 0.1 - 0.05;
         rate1 = round2 (js_add (js_mul coinGeckoBaseCost (Num targetMultiplier))
                                (Num microAdjustment));
         newProfitMargin = margin_pct rate1 coinGeckoBaseCost;
         rate2 = (if js_lt newProfitMargin (Num (minProfitMargin cfg))
                  then round2 (js_mul coinGeckoBaseCost
                         (Num (1 + minProfitMargin cfg / 100 + 0.005)))
                  else rate1)
     in \<lparr>baseCost = coinGeckoBaseCost, targetRate = fst rate2,
         profitMargin = margin_pct rate2 coinGeckoBaseCost,
         savingsVsMin = js_sub (Num (localRateMin cfg)) (fst rate2),
         savingsVsMax = js_sub (Num (localRateMax cfg)) (fst rate2),
         savingsPercent =
           js_mul (js_div (js_sub (Num (localRateMin cfg)) (fst rate2))
                          (Num (localRateMin cfg))) (Num 100),
         usedCoinGeckoFallback = True,
         rateSource = ''CoinGecko (Fallback)'',
         warning = None\<rparr>)"

text \<open>No CoinGecko rate: the minimum margin forced on the primary cost.\<close>

definition forced_result :: "pricing_cfg \<Rightarrow> jsnum \<Rightarrow> pricing_result" where
  "forced_result cfg baseCostPerInr =
    (let forced = round2 (js_mul baseCostPerInr (Num (1 + minProfitMargin cfg / 100 + 0.01)))
     in \<lparr>baseCost = baseCostPerInr, targetRate = fst forced,
         profitMargin = margin_pct forced baseCostPerInr,
         savingsVsMin = js_sub (Num (localRateMin cfg)) (fst forced),
         savingsVsMax = js_sub (Num (localRateMax cfg)) (fst forced),
         savingsPercent =
           js_mul (js_div (js_sub (Num (localRateMin cfg)) (fst forced))
                          (Num (localRateMin cfg))) (Num 100),
         usedCoinGeckoFallback = False,
         rateSource = ''P2P (Forced Minimum)'',
         warning = Some ''Rate adjusted to maintain minimum profit margin''\<rparr>)"

text \<open>The rate drawn from the competitive band is profitable.\<close>

definition primary_result :: "pricing_cfg \<Rightarrow> jsnum \<Rightarrow> jsnum \<times> bool \<Rightarrow> jsnum \<Rightarrow> pricing_result" where
  "primary_result cfg baseCostPerInr finalRate margin =
    (let sMin = js_sub (Num (localRateMin cfg)) (fst finalRate);
         sMax = js_sub (Num (localRateMax cfg)) (fst finalRate)
     in \<lparr>baseCost = baseCostPerInr, targetRate = fst finalRate, profitMargin = margin,
         savingsVsMin = sMin, savingsVsMax = sMax,
         savingsPercent =
           (if js_lt (Num 0) sMin
            then js_mul (js_div sMin (Num (localRateMin cfg))) (Num 100) else Num 0),
         usedCoinGeckoFallback = False,
         rateSource = ''Binance P2P (Primary)'',
         warning = None\<rparr>)"

definition calculateCompetitiveRate ::
  "pricing_cfg \<Rightarrow> real \<Rightarrow> real \<Rightarrow> jsnum \<Rightarrow> jsnum \<Rightarrow> jsnum option \<Rightarrow> pricing_result" where
  "calculateCompetitiveRate cfg r1 r2 lowestInrRate ngnRate coinGeckoInr =
    (let baseCostPerInr = js_div ngnRate lowestInrRate;
         randomRate = discountRangeMin cfg + r1 * (discountRangeMax cfg - discountRangeMin cfg);
         finalRate = round2 (Num randomRate);
         margin = margin_pct finalRate baseCostPerInr
     in
       if js_lt margin (Num (minProfitMargin cfg)) then
         (case coinGeckoInr of
            Some cg \<Rightarrow>
              if js_lt (Num 0) cg then fallback_result cfg r2 ngnRate cg
              else forced_result cfg baseCostPerInr
          | None \<Rightarrow> forced_result cfg baseCostPerInr)
       else primary_result cfg baseCostPerInr finalRate margin)"

text \<open>
  The older server (src/unnamed/part\_002): no fallback ladder; it raises when the margin
  is below the minimum. \<open>r\<close> is what \<^verbatim>\<open>Math.random()\<close> returns.
\<close>

record pricing_cfg_old =
  minProfitMargin_old :: real
  ngnMarkup_old :: real
  discountMin :: real
  discountMax :: real
  localRateMin_old :: real
  localRateMax_old :: real

definition pricing_part002 :: pricing_cfg_old where
  "pricing_part002 =
    \<lparr>minProfitMargin_old = 0.5, ngnMarkup_old = 20, discountMin = 0.20, discountMax = 0.40,
     localRateMin_old = 16.2, localRateMax_old = 16.5\<rparr>"

record pricing_result_old =
  baseCost_old :: jsnum
  targetRate_old :: jsnum
  discount :: real
  profitMargin_old :: jsnum
  savingsVsMin_old :: jsnum
  savingsVsMax_old :: jsnum
  savingsPercent_old :: jsnum

definition calculateCompetitiveRate_old ::
  "pricing_cfg_old \<Rightarrow> real \<Rightarrow> jsnum \<Rightarrow> jsnum \<Rightarrow> error + pricing_result_old" where
  "calculateCompetitiveRate_old cfg r lowestInrRate ngnRate =
    (let baseCostPerInr = js_div ngnRate lowestInrRate;
         profitMultiplier = 1 + minProfitMargin_old cfg / 100;
         rateWithProfit = js_mul baseCostPerInr (Num profitMultiplier);
         randomAdjustment = discountMin cfg + r * (discountMax cfg - discountMin cfg);
         rate0 = js_add rateWithProfit (Num (randomAdjustment * 0.1));
         rate1 = (if js_lt (Num (localRateMax_old cfg)) rate0
                  then Num (localRateMax_old cfg - 0.1) else rate0);
         finalRate = (if js_lt rate1 (js_mul baseCostPerInr (Num 1.005))
                      then js_mul baseCostPerInr (Num 1.005) else rate1);
         margin = js_mul (js_div (js_sub finalRate baseCostPerInr) finalRate) (Num 100)
     in
       if js_lt margin (Num (minProfitMargin_old cfg))
         then Inl (APIError ''Insufficient profit margin - rates unfavorable'' 503)
       else
         (let sMin = js_sub (Num (localRateMin_old cfg)) finalRate;
              sMax = js_sub (Num (localRateMax_old cfg)) finalRate
          in Inr \<lparr>baseCost_old = baseCostPerInr, targetRate_old = finalRate,
                  discount = randomAdjustment, profitMargin_old = margin,
                  savingsVsMin_old = sMin, savingsVsMax_old = sMax,
                  savingsPercent_old =
                    (if js_lt (Num 0) sMin
                     then js_mul (js_div sMin (Num (localRateMin_old cfg))) (Num 100)
                     else Num 0)\<rparr>))"

section \<open>Market data aggregator\<close>

text \<open>
  The configuration \<^verbatim>\<open>getMarketData\<close> reads: \<^verbatim>\<open>config.api.maxRetries\<close>,
  \<^verbatim>\<open>config.pricing.ngnMarkup\<close>, \<^verbatim>\<open>config.fallback.ngnRate\<close> (src/script.js only) and the
  two filters.
\<close>

record agg_cfg =
  maxRetries :: nat
  markup :: real
  fallbackNgnRate :: real
  strictFilter :: filter_cfg
  relaxedFilter :: filter_cfg

definition agg_script :: agg_cfg where
  "agg_script =
    \<lparr>maxRetries = 5, markup = 20, fallbackNgnRate = 1650,
     strictFilter = strict_default, relaxedFilter = relaxed_default\<rparr>"

text \<open>
  The defaults of the older server. Its configuration has no fallback rate, and
  \<open>getMarketData_old\<close> below does not read that field.
\<close>

definition agg_part002 :: agg_cfg where
  "agg_part002 =
    \<lparr>maxRetries = 3, markup = 20, fallbackNgnRate = 0,
     strictFilter = strict_default, relaxedFilter = relaxed_default\<rparr>"

text \<open>
  The snapshot, without its \<^verbatim>\<open>timestamp\<close>. \<^verbatim>\<open>usedFallback\<close> is \<open>None\<close> in the older
  server, whose snapshot has no such property; \<^verbatim>\<open>errors\<close> is \<open>None\<close> for \<^verbatim>\<open>undefined\<close>.
\<close>

record rates =
  binanceSpot :: "jsnum option"
  coinGeckoInr :: "jsnum option"
  coinGeckoNgn :: "jsnum option"
  ngnRateWithMarkup :: jsnum
  p2pLowest :: jsnum
  usedFallback :: "bool option"

record market_data =
  md_rates :: rates
  md_p2p :: p2p_stats
  md_errors :: "(string \<times> string) list option"

text \<open>The cache entry under the key \<^verbatim>\<open>market_data\<close>, if it has not expired, and the two counters.\<close>

record agg_state =
  cached :: "market_data option"
  hits :: int
  misses :: int

text \<open>The entries the three settled promises add to \<^verbatim>\<open>errors\<close>, in this order.\<close>

definition source_error :: "string \<Rightarrow> error + 'a \<Rightarrow> (string \<times> string) list" where
  "source_error source r = (case r of Inl e \<Rightarrow> [(source, message e)] | Inr v \<Rightarrow> [])"

text \<open>A number as a condition: false for 0 and NaN.\<close>

definition num_truthy :: "jsnum option \<Rightarrow> bool" where
  "num_truthy n = (case n of None \<Rightarrow> False | Some x \<Rightarrow> \<not> isNaN x \<and> x \<noteq> Num 0)"

text \<open>
  \<^verbatim>\<open>getMarketData(useCache)\<close> of src/script.js. The three fetches all run and settle
  before any result is read, so their outcomes are arguments.
\<close>

definition getMarketData ::
  "agg_cfg \<Rightarrow> bool \<Rightarrow> agg_state \<Rightarrow> http_outcome \<Rightarrow> http_outcome \<Rightarrow> (nat \<Rightarrow> http_outcome)
    \<Rightarrow> (error + market_data) \<times> agg_state" where
  "getMarketData cfg useCache st spotOut geckoOut p2pOuts =
    (case (if useCache then cached st else None) of
       Some md \<Rightarrow> (Inr md, st\<lparr>hits := hits st + 1\<rparr>)
     | None \<Rightarrow>
        (let st1 = st\<lparr>misses := misses st + 1\<rparr>;
             r0 = fetchBinanceSpot spotOut;
             r1 = fetchCoinGecko geckoOut;
             r2 = fetchBinanceP2P (maxRetries cfg) p2pOuts;
             errors = source_error ''binanceSpot'' r0 @ source_error ''coinGecko'' r1
                      @ source_error ''binanceP2P'' r2;
             gecko_inr = (case r1 of Inl e \<Rightarrow> None | Inr cg \<Rightarrow> cg_inr cg);
             gecko_ngn = (case r1 of Inl e \<Rightarrow> None | Inr cg \<Rightarrow> cg_ngn cg)
         in
           (case r2 of
              Inl e \<Rightarrow> (Inl (ExternalAPIError ''Critical: P2P data unavailable''), st1)
            | Inr p2pData \<Rightarrow>
               if \<not> truthy (Some p2pData)
                 then (Inl (ExternalAPIError ''Critical: P2P data unavailable''), st1)
               else
                 (let ngnRate0 = (case gecko_ngn of
                                    Some n \<Rightarrow> if num_truthy (Some n) then n
                                              else Num (fallbackNgnRate cfg)
                                  | None \<Rightarrow> Num (fallbackNgnRate cfg));
                      ngnRate = js_add ngnRate0 (Num (markup cfg))
                  in
                    (case analyzeP2P (strictFilter cfg) (relaxedFilter cfg) p2pData of
                       Inl e \<Rightarrow> (Inl e, st1)
                     | Inr p2pStats \<Rightarrow>
                        (let marketData =
                               \<lparr>md_rates =
                                  \<lparr>binanceSpot = (case r0 of Inl e \<Rightarrow> None | Inr v \<Rightarrow> Some v),
                                   coinGeckoInr = gecko_inr,
                                   coinGeckoNgn = gecko_ngn,
                                   ngnRateWithMarkup = ngnRate,
                                   p2pLowest = lowestRate p2pStats,
                                   usedFallback = Some (\<not> num_truthy gecko_ngn)\<rparr>,
                                md_p2p = p2pStats,
                                md_errors = (if errors = [] then None else Some errors)\<rparr>
                         in (Inr marketData, st1\<lparr>cached := Some marketData\<rparr>)))))))"

text \<open>
  \<^verbatim>\<open>getMarketData\<close> of the older server (src/unnamed/part\_002): no fallback rate; it
  raises when the CoinGecko fetch failed or gave no NGN rate.
\<close>

definition getMarketData_old ::
  "agg_cfg \<Rightarrow> bool \<Rightarrow> agg_state \<Rightarrow> http_outcome \<Rightarrow> http_outcome \<Rightarrow> (nat \<Rightarrow> http_outcome)
    \<Rightarrow> (error + market_data) \<times> agg_state" where
  "getMarketData_old cfg useCache st spotOut geckoOut p2pOuts =
    (case (if useCache then cached st else None) of
       Some md \<Rightarrow> (Inr md, st\<lparr>hits := hits st + 1\<rparr>)
     | None \<Rightarrow>
        (let st1 = st\<lparr>misses := misses st + 1\<rparr>;
             r0 = fetchBinanceSpot spotOut;
             r1 = fetchCoinGecko geckoOut;
             r2 = fetchBinanceP2P (maxRetries cfg) p2pOuts;
             errors = source_error ''binanceSpot'' r0 @ source_error ''coinGecko'' r1
                      @ source_error ''binanceP2P'' r2
         in
           (case r2 of
              Inl e \<Rightarrow> (Inl (ExternalAPIError ''Critical: P2P data unavailable''), st1)
            | Inr p2pData \<Rightarrow>
               if \<not> truthy (Some p2pData)
                 then (Inl (ExternalAPIError ''Critical: P2P data unavailable''), st1)
               else
                 (case r1 of
                    Inl e \<Rightarrow> (Inl (ExternalAPIError ''Critical: NGN rate unavailable''), st1)
                  | Inr cg \<Rightarrow>
                     (case cg_ngn cg of
                        None \<Rightarrow> (Inl (ExternalAPIError ''Critical: NGN rate unavailable''), st1)
                      | Some n \<Rightarrow>
                         if \<not> num_truthy (Some n)
                           then (Inl (ExternalAPIError ''Critical: NGN rate unavailable''), st1)
                         else
                           (case analyzeP2P (strictFilter cfg) (relaxedFilter cfg) p2pData of
                              Inl e \<Rightarrow> (Inl e, st1)
                            | Inr p2pStats \<Rightarrow>
                               (let marketData =
                                      \<lparr>md_rates =
                                         \<lparr>binanceSpot =
                                            (case r0 of Inl e \<Rightarrow> None | Inr v \<Rightarrow> Some v),
                                          coinGeckoInr = cg_inr cg,
                                          coinGeckoNgn = Some n,
                                          ngnRateWithMarkup = js_add n (Num (markup cfg)),
                                          p2pLowest = lowestRate p2pStats,
                                          usedFallback = None\<rparr>,
                                       md_p2p = p2pStats,
                                       md_errors = (if errors = [] then None else Some errors)\<rparr>
                                in (Inr marketData, st1\<lparr>cached := Some marketData\<rparr>))))))))"

section \<open>Transaction sessions\<close>

text \<open>
  \<^verbatim>\<open>metrics.transactions\<close>, and the server state the session functions and the routes
  change: the children of \<^verbatim>\<open>transactions/\<close> in the Firebase database (a session is the map
  of its properties), the counters, and the market-data cache.
\<close>

record tx_metrics =
  tx_total :: int
  tx_pending :: int
  tx_completed :: int
  tx_failed :: int

type_synonym session = "string \<rightharpoonup> json"

record server =
  transactions :: "string \<rightharpoonup> session"
  metrics_tx :: tx_metrics
  market :: agg_state

text \<open>A property of a stored session, \<open>None\<close> when the session or the property is absent.\<close>

definition session_field :: "server \<Rightarrow> string \<Rightarrow> string \<Rightarrow> json option" where
  "session_field srv sid k = (case transactions srv sid of None \<Rightarrow> None | Some s \<Rightarrow> s k)"

text \<open>
  \<^verbatim>\<open>ref.update(updates)\<close>. An update object is the list of its properties in the order
  they are written, a later one overriding an earlier one of the same name; \<open>None\<close> is
  \<^verbatim>\<open>undefined\<close>. Firebase refuses an object with a value that is \<^verbatim>\<open>undefined\<close> or a number
  that is not finite, and then writes nothing; \<^verbatim>\<open>null\<close> removes the property; the other
  properties of the session stay. \<open>ok\<close> says whether the database accepts the write.
\<close>

definition storable :: "json option \<Rightarrow> bool" where
  "storable v = (case v of None \<Rightarrow> False | Some (JNum n) \<Rightarrow> isFinite n | Some x \<Rightarrow> True)"

fun apply_update :: "session \<Rightarrow> string \<times> json option \<Rightarrow> session" where
  "apply_update s (k, None) = s"
| "apply_update s (k, Some JNull) = s(k := None)"
| "apply_update s (k, Some v) = s(k \<mapsto> v)"

definition fb_update ::
  "bool \<Rightarrow> (string \<rightharpoonup> session) \<Rightarrow> string \<Rightarrow> (string \<times> json option) list
    \<Rightarrow> error + (string \<rightharpoonup> session)" where
  "fb_update ok db sid ups =
    (if \<not> list_all (\<lambda>u. storable (snd u)) ups
       then Inl (JsError ''update failed: value argument contains an invalid value'')
     else if \<not> ok then Inl (JsError ''update failed'')
     else Inr (db(sid \<mapsto> foldl apply_update (case db sid of None \<Rightarrow> Map.empty | Some s \<Rightarrow> s) ups)))"

text \<open>\<^verbatim>\<open>await db.ref(`transactions/${sessionId}`).update(updates)\<close> on the server state.\<close>

definition db_update ::
  "bool \<Rightarrow> server \<Rightarrow> string \<Rightarrow> (string \<times> json option) list \<Rightarrow> (error + unit) \<times> server" where
  "db_update ok srv sid ups =
    (case fb_update ok (transactions srv) sid ups of
       Inl e \<Rightarrow> (Inl e, srv)
     | Inr db \<Rightarrow> (Inr (), srv\<lparr>transactions := db\<rparr>))"

text \<open>
  What \<^verbatim>\<open>createTransactionSession\<close> is given: the amounts of the offer (the source passes
  them formatted as text), and what it takes from its environment: the identifier
  \<^verbatim>\<open>uuidv4()\<close> returns, \<^verbatim>\<open>Date.now()\<close>, whether the encryption key is configured, and
  \<^verbatim>\<open>encryptData\<close>.
\<close>

record transaction_data =
  td_amount :: jsnum
  td_from :: string
  td_to :: string
  td_exchangeRate :: jsnum
  td_youGet :: jsnum
  td_feePercent :: real
  td_feeAmount :: jsnum
  td_ipAddress :: string
  td_userAgent :: string

definition sessionTTL :: real where
  "sessionTTL = 5 * 60 * 1000"

definition locked_transaction :: "transaction_data \<Rightarrow> json" where
  "locked_transaction td =
    JObj [(''amount'', JNum (td_amount td)), (''from'', JStr (td_from td)),
          (''to'', JStr (td_to td)), (''exchangeRate'', JNum (td_exchangeRate td)),
          (''youGet'', JNum (td_youGet td)),
          (''feeCharged'', JArr [JNum (Num (td_feePercent td)), JNum (td_feeAmount td)])]"

definition createTransactionSession ::
  "(json \<Rightarrow> string) \<Rightarrow> bool \<Rightarrow> bool \<Rightarrow> string \<Rightarrow> real \<Rightarrow> server \<Rightarrow> transaction_data \<Rightarrow> json
    \<Rightarrow> (error + string \<times> real) \<times> server" where
  "createTransactionSession encryptData keyConfigured ok sessionId now srv td userDetails =
    (if \<not> keyConfigured
       then (Inl (JsError (''Transaction session creation failed: ''
               @ ''ENCRYPTION_KEY not properly configured in .env'')), srv)
     else if \<not> ok
       then (Inl (JsError ''Transaction session creation failed: set failed''), srv)
     else
       (let sessionData =
              [''sessionId'' \<mapsto> JStr sessionId,
               ''status'' \<mapsto> JStr ''pending'',
               ''createdAt'' \<mapsto> JNum (Num now),
               ''expiresAt'' \<mapsto> JNum (Num (now + sessionTTL)),
               ''encryptedUserDetails'' \<mapsto> JStr (encryptData userDetails),
               ''encryptedTransaction'' \<mapsto> JStr (encryptData (locked_transaction td)),
               ''ipAddress'' \<mapsto> JStr (td_ipAddress td),
               ''userAgent'' \<mapsto> JStr (td_userAgent td),
               ''summary'' \<mapsto> JObj [(''amountNGN'', JNum (td_amount td)),
                                      (''amountINR'', JNum (td_youGet td)),
                                      (''currency'', JStr (td_from td @ '' to '' @ td_to td)),
                                      (''userName'',
                                       js_or_else (js_get userDetails ''customerName'')
                                         (JStr ''Anonymous''))]]
        in (Inr (sessionId, now + sessionTTL),
            srv\<lparr>transactions := (transactions srv)(sessionId \<mapsto> sessionData),
                metrics_tx := (metrics_tx srv)
                  \<lparr>tx_total := tx_total (metrics_tx srv) + 1,
                   tx_pending := tx_pending (metrics_tx srv) + 1\<rparr>\<rparr>)))"

text \<open>
  \<^verbatim>\<open>updateTransactionStatus(sessionId, status, additionalData)\<close>. \<open>now\<close> is the time the
  database puts for \<^verbatim>\<open>ServerValue.TIMESTAMP\<close>.
\<close>

definition count_status :: "string \<Rightarrow> tx_metrics \<Rightarrow> tx_metrics" where
  "count_status status m =
    (if status = ''completed''
       then m\<lparr>tx_completed := tx_completed m + 1, tx_pending := tx_pending m - 1\<rparr>
     else if status = ''failed''
       then m\<lparr>tx_failed := tx_failed m + 1, tx_pending := tx_pending m - 1\<rparr>
     else m)"

definition updateTransactionStatus ::
  "bool \<Rightarrow> real \<Rightarrow> server \<Rightarrow> string \<Rightarrow> string \<Rightarrow> (string \<times> json option) list
    \<Rightarrow> (error + bool) \<times> server" where
  "updateTransactionStatus ok now srv sessionId status additionalData =
    (case db_update ok srv sessionId
            ([(''status'', Some (JStr status)), (''updatedAt'', Some (JNum (Num now)))]
             @ additionalData) of
       (Inl e, srv') \<Rightarrow> (Inl (APIError ''Failed to update transaction status'' 500), srv')
     | (Inr u, srv') \<Rightarrow>
        (Inr True, srv'\<lparr>metrics_tx := count_status status (metrics_tx srv')\<rparr>))"

subsection \<open>The routes that change the status of a session\<close>

text \<open>
  \<^verbatim>\<open>POST /api/payment/initialize\<close>, after \<^verbatim>\<open>getTransactionSession\<close> has found the session,
  not expired (an \<^verbatim>\<open>expiresAt\<close> that is a number before now) and decryptable
  (\<open>decryptable\<close>), and with the mock payment the source always uses. \<open>reference\<close> is the text \<^verbatim>\<open>HP-<sessionId>-<Date.now()>\<close>.
\<close>

definition payment_initialize ::
  "bool \<Rightarrow> bool \<Rightarrow> real \<Rightarrow> string \<Rightarrow> server \<Rightarrow> string option \<Rightarrow> (error + string) \<times> server" where
  "payment_initialize ok decryptable now reference srv sessionId =
    (case sessionId of
       None \<Rightarrow> (Inl (ValidationError ''Session ID required''), srv)
     | Some sid \<Rightarrow>
        if sid = [] then (Inl (ValidationError ''Session ID required''), srv)
        else
        (case transactions srv sid of
           None \<Rightarrow> (Inl (APIError ''Session not found'' 404), srv)
         | Some s \<Rightarrow>
            if (case s ''expiresAt'' of
                  Some (JNum t) \<Rightarrow> num_truthy (Some t) \<and> js_lt t (Num now)
                | _ \<Rightarrow> False)
              then (Inl (APIError ''Session expired'' 410), srv)
            else if \<not> decryptable then (Inl (JsError ''Data decryption failed''), srv)
            else
              (case s ''status'' of
                 Some (JStr st) \<Rightarrow>
                   if st \<noteq> ''pending''
                     then (Inl (ValidationError (''Transaction already '' @ st)), srv)
                   else
                     (case db_update ok srv sid
                             [(''paystackReference'', Some (JStr reference)),
                              (''paystackInitializedAt'', Some (JNum (Num now))),
                              (''status'', Some (JStr ''payment_initiated''))] of
                        (Inl e, srv') \<Rightarrow> (Inl e, srv')
                      | (Inr u, srv') \<Rightarrow> (Inr reference, srv'))
               | _ \<Rightarrow> (Inl (ValidationError ''Transaction already undefined''), srv))))"

text \<open>
  What a handler reads from a verified Paystack transaction or from a webhook event, each
  field being the value of the expression the handler stores (\<open>None\<close> for \<^verbatim>\<open>undefined\<close>):
  \<^verbatim>\<open>amount / 100\<close>, the time of \<^verbatim>\<open>paid_at\<close>, \<^verbatim>\<open>channel\<close>, \<^verbatim>\<open>gateway_response\<close>,
  \<^verbatim>\<open>customer.email\<close>.
\<close>

record charge =
  ch_success :: bool
  ch_paidAmount :: "json option"
  ch_paidAt :: "json option"
  ch_channel :: "json option"
  ch_gateway_response :: "json option"
  ch_customerEmail :: "json option"

text \<open>
  In the three routes below a reference or a session identifier is \<open>None\<close> when the
  request has none or an empty one, which the handlers test in the same way.
\<close>

text \<open>
  \<^verbatim>\<open>POST /api/payment/verify-manual\<close>: the reply's status code and the new state.
  \<open>verified\<close> is what \<^verbatim>\<open>paystackAPI.verifyTransaction\<close> gives: \<open>Inl\<close> when it raises,
  \<open>Inr None\<close> for a response without \<^verbatim>\<open>status\<close> or \<^verbatim>\<open>data\<close>. This route writes the
  session itself and does not touch the counters.
\<close>

definition verify_manual ::
  "bool \<Rightarrow> real \<Rightarrow> server \<Rightarrow> string option \<Rightarrow> string option \<Rightarrow> error + charge option
    \<Rightarrow> nat \<times> server" where
  "verify_manual ok now srv reference sessionId verified =
    (case reference of
       None \<Rightarrow> (400, srv)
     | Some ref \<Rightarrow>
        (case verified of
           Inl e \<Rightarrow> (500, srv)
         | Inr None \<Rightarrow> (400, srv)
         | Inr (Some tx) \<Rightarrow>
            (case sessionId of
               None \<Rightarrow> (200, srv)
             | Some sid \<Rightarrow>
                if ch_success tx then
                  (case db_update ok srv sid
                          [(''status'', Some (JStr ''completed'')),
                           (''paystackReference'', Some (JStr ref)),
                           (''paidAmount'', ch_paidAmount tx),
                           (''paidAt'', Some (JNum (Num now))),
                           (''paymentChannel'', ch_channel tx),
                           (''verifiedAt'', Some (JNum (Num now)))] of
                     (Inl e, srv') \<Rightarrow> (500, srv')
                   | (Inr u, srv') \<Rightarrow> (200, srv'))
                else
                  (case db_update ok srv sid
                          [(''status'', Some (JStr ''failed'')),
                           (''failureReason'', ch_gateway_response tx),
                           (''failedAt'', Some (JNum (Num now)))] of
                     (Inl e, srv') \<Rightarrow> (500, srv')
                   | (Inr u, srv') \<Rightarrow> (200, srv')))))"

text \<open>
  \<^verbatim>\<open>GET /api/payment/verify\<close>, the callback of the payment page: it redirects in every
  case, so only the new state is given. In src/script.js the helper object has no
  \<^verbatim>\<open>transaction\<close> property, so \<^verbatim>\<open>paystackAPI.transaction.verify\<close> raises in every run
  (\<open>verified = Inl e\<close>); the model keeps the branches the source writes after the call.
\<close>

definition verify_callback ::
  "bool \<Rightarrow> real \<Rightarrow> server \<Rightarrow> string option \<Rightarrow> string option \<Rightarrow> error + charge option \<Rightarrow> server" where
  "verify_callback ok now srv reference sessionId verified =
    (case reference of
       None \<Rightarrow> srv
     | Some ref \<Rightarrow>
        (case verified of
           Inl e \<Rightarrow> srv
         | Inr None \<Rightarrow> srv
         | Inr (Some tx) \<Rightarrow>
            (case sessionId of
               None \<Rightarrow> srv
             | Some sid \<Rightarrow>
                if ch_success tx then
                  snd (updateTransactionStatus ok now srv sid ''completed''
                         [(''paystackReference'', Some (JStr ref)),
                          (''paidAmount'', ch_paidAmount tx),
                          (''paidAt'', ch_paidAt tx),
                          (''paymentChannel'', ch_channel tx),
                          (''paymentGateway'', Some (JStr ''Paystack'')),
                          (''customerEmail'', ch_customerEmail tx),
                          (''verifiedAt'', Some (JNum (Num now)))])
                else
                  snd (updateTransactionStatus ok now srv sid ''failed''
                         [(''paystackReference'', Some (JStr ref)),
                          (''failureReason'', ch_gateway_response tx),
                          (''failedAt'', Some (JNum (Num now)))]))))"

text \<open>
  \<^verbatim>\<open>POST /api/webhook/paystack\<close>: the status code sent and the new state. \<open>event\<close> is
  \<open>None\<close> when the event is not \<^verbatim>\<open>charge.success\<close>, else the reference, the session
  identifier of the metadata (\<open>None\<close> when it is missing) and the fields of the charge;
  \<open>Inl\<close> when reading them raises.
\<close>

definition webhook_paystack ::
  "bool \<Rightarrow> real \<Rightarrow> server \<Rightarrow> bool \<Rightarrow> error + (json option \<times> string option \<times> charge) option
    \<Rightarrow> nat \<times> server" where
  "webhook_paystack ok now srv signatureValid event =
    (if \<not> signatureValid then (400, srv)
     else
       (case event of
          Inl e \<Rightarrow> (500, srv)
        | Inr None \<Rightarrow> (200, srv)
        | Inr (Some (reference, None, ch)) \<Rightarrow> (200, srv)
        | Inr (Some (reference, Some sid, ch)) \<Rightarrow>
           (case updateTransactionStatus ok now srv sid ''completed''
                   [(''paystackReference'', reference),
                    (''paidAmount'', ch_paidAmount ch),
                    (''paidAt'', ch_paidAt ch),
                    (''paymentChannel'', ch_channel ch),
                    (''webhookReceivedAt'', Some (JNum (Num now)))] of
              (Inl e, srv') \<Rightarrow> (500, srv')
            | (Inr b, srv') \<Rightarrow> (200, srv'))))"

text \<open>
  \<^verbatim>\<open>POST /api/transaction/:sessionId/status\<close>, for an administrator. \<open>denied\<close> is
  the error \<^verbatim>\<open>validateAdminAuth\<close> raises, \<open>None\<close> when it returns.
\<close>

definition admin_status ::
  "bool \<Rightarrow> real \<Rightarrow> server \<Rightarrow> error option \<Rightarrow> string \<Rightarrow> json option \<Rightarrow> json option
    \<Rightarrow> json option \<Rightarrow> string \<Rightarrow> (error + bool) \<times> server" where
  "admin_status ok now srv denied sessionId status paymentProof notes ip =
    (case denied of
       Some e \<Rightarrow> (Inl e, srv)
     | None \<Rightarrow>
       (case status of
          Some (JStr st) \<Rightarrow>
            if st \<in> set [''completed'', ''failed'', ''processing''] then
              updateTransactionStatus ok now srv sessionId st
                [(''paymentProof'', paymentProof), (''notes'', notes), (''updatedBy'', Some (JStr ip))]
            else (Inl (ValidationError ''Invalid status''), srv)
        | _ \<Rightarrow> (Inl (ValidationError ''Invalid status''), srv)))"

text \<open>A status transition: one run of one of these routes, with what it is given.\<close>

datatype transition =
    PaymentInitialize bool bool real string "string option"
  | VerifyManual bool real "string option" "string option" "error + charge option"
  | VerifyCallback bool real "string option" "string option" "error + charge option"
  | Webhook bool real bool "error + (json option \<times> string option \<times> charge) option"
  | AdminStatus bool real "error option" string "json option" "json option" "json option" string

fun transition_step :: "server \<Rightarrow> transition \<Rightarrow> server" where
  "transition_step srv (PaymentInitialize ok dec now ref sid) =
     snd (payment_initialize ok dec now ref srv sid)"
| "transition_step srv (VerifyManual ok now ref sid v) = snd (verify_manual ok now srv ref sid v)"
| "transition_step srv (VerifyCallback ok now ref sid v) = verify_callback ok now srv ref sid v"
| "transition_step srv (Webhook ok now sig ev) = snd (webhook_paystack ok now srv sig ev)"
| "transition_step srv (AdminStatus ok now denied sid st pp notes ip) =
     snd (admin_status ok now srv denied sid st pp notes ip)"

text \<open>The properties of a session that creation sets and that hold its locked figures.\<close>

definition locked_fields :: "string list" where
  "locked_fields =
    [''sessionId'', ''createdAt'', ''expiresAt'', ''encryptedUserDetails'',
     ''encryptedTransaction'', ''summary'', ''ipAddress'', ''userAgent'']"

section \<open>Conversion requests\<close>

text \<open>\<^verbatim>\<open>config.limits\<close> of src/script.js (the daily limit is read by the fraud check only).\<close>

record limits =
  minTransaction :: nat
  maxTransaction :: nat

definition limits_script :: limits where
  "limits_script = \<lparr>minTransaction = 1000, maxTransaction = 5000000\<rparr>"

text \<open>
  The messages of the errors are texts in UTF-8: \<open>naira\<close> is the currency sign U+20A6.
  \<^verbatim>\<open>n.toLocaleString()\<close> groups the digits of a natural number by three, as the default
  locale of the runtime (en-US) does.
\<close>

definition naira :: string where
  "naira = [CHR 0xE2, CHR 0x82, CHR 0xA6]"

fun group3 :: "string \<Rightarrow> string" where
  "group3 (a # b # c # d # r) = a # b # c # CHR '','' # group3 (d # r)"
| "group3 xs = xs"

definition toLocaleString :: "nat \<Rightarrow> string" where
  "toLocaleString n = rev (group3 (rev (decimal n)))"

text \<open>
  \<^verbatim>\<open>validateConversionRequest(amount, from, to)\<close> of src/script.js; the arguments are
  properties of the request body.
\<close>

definition validateConversionRequest ::
  "limits \<Rightarrow> json option \<Rightarrow> json option \<Rightarrow> json option \<Rightarrow> error + bool" where
  "validateConversionRequest lims amount from to =
    (case amount of
       Some (JNum n) \<Rightarrow>
         if isNaN n then Inl (ValidationError ''Amount must be a valid number'')
         else if js_le n (Num 0) then Inl (ValidationError ''Amount must be greater than 0'')
         else if js_lt n (Num (real (minTransaction lims)))
           then Inl (ValidationError (''Amount must be at least '' @ naira
                  @ toLocaleString (minTransaction lims)))
         else if js_lt (Num (real (maxTransaction lims))) n
           then Inl (ValidationError (''Amount exceeds maximum limit of '' @ naira
                  @ toLocaleString (maxTransaction lims)))
         else if from \<noteq> Some (JStr ''NGN'')
           then Inl (ValidationError ''Only NGN source currency supported'')
         else if to \<noteq> Some (JStr ''INR'')
           then Inl (ValidationError ''Only INR target currency supported'')
         else Inr True
     | _ \<Rightarrow> Inl (ValidationError ''Amount must be a valid number''))"

text \<open>The same function in the older server: no minimum, a fixed maximum.\<close>

definition validateConversionRequest_old ::
  "json option \<Rightarrow> json option \<Rightarrow> json option \<Rightarrow> error + bool" where
  "validateConversionRequest_old amount from to =
    (case amount of
       Some (JNum n) \<Rightarrow>
         if isNaN n then Inl (ValidationError ''Amount must be a valid number'')
         else if js_le n (Num 0) then Inl (ValidationError ''Amount must be greater than 0'')
         else if js_lt (Num 100000000) n
           then Inl (ValidationError ''Amount exceeds maximum limit (100,000,000)'')
         else if from \<noteq> Some (JStr ''NGN'')
           then Inl (ValidationError ''Only NGN source currency supported'')
         else if to \<noteq> Some (JStr ''INR'')
           then Inl (ValidationError ''Only INR target currency supported'')
         else Inr True
     | _ \<Rightarrow> Inl (ValidationError ''Amount must be a valid number''))"

text \<open>
  A request to \<^verbatim>\<open>POST /api/convert\<close> as its handler sees it: the properties of the body
  it reads, the errors \<^verbatim>\<open>validationResult(req)\<close> holds (the checks of express-validator
  run before the handler), and the address and agent of the caller.
\<close>

record convert_request =
  rq_validationErrors :: "string list"
  rq_amount :: "json option"
  rq_from :: "json option"
  rq_to :: "json option"
  rq_customerName :: "json option"
  rq_email :: "json option"
  rq_phone :: "json option"
  rq_paymentMethod :: "json option"
  rq_receiveMethod :: "json option"
  rq_ip :: string
  rq_userAgent :: string

text \<open>
  What the handler takes from outside during one run: the verdicts of
  \<^verbatim>\<open>validateUserDetails\<close> and of \<^verbatim>\<open>checkFraudRisk\<close> (whose bookkeeping of daily totals is
  not part of the state modelled here), the outcomes of the three fetches, the two random
  draws, the new session identifier, the time, and the encryption.
\<close>

record convert_env =
  env_userDetailsValid :: bool
  env_fraudHigh :: bool
  env_spotOut :: http_outcome
  env_geckoOut :: http_outcome
  env_p2pOuts :: "nat \<Rightarrow> http_outcome"
  env_random1 :: real
  env_random2 :: real
  env_newSessionId :: string
  env_timeNow :: real
  env_keyConfigured :: bool
  env_dbAccepts :: bool
  env_encryptData :: "json \<Rightarrow> string"

definition userDetails_of :: "convert_request \<Rightarrow> json" where
  "userDetails_of req =
    JObj [(''customerName'', js_or_else (rq_customerName req) (JStr ''Anonymous'')),
          (''email'', js_or_else (rq_email req) JNull),
          (''phone'', js_or_else (rq_phone req) JNull),
          (''paymentMethod'', js_or_else (rq_paymentMethod req) JNull),
          (''receiveMethod'', js_or_else (rq_receiveMethod req) JNull)]"

text \<open>
  The handler of \<^verbatim>\<open>POST /api/convert\<close> in src/script.js: the error passed to
  \<^verbatim>\<open>next\<close> or the identifier of the session created, and the new state.
\<close>

definition convert ::
  "limits \<Rightarrow> agg_cfg \<Rightarrow> pricing_cfg \<Rightarrow> tier list \<Rightarrow> convert_env \<Rightarrow> server \<Rightarrow> convert_request
    \<Rightarrow> (error + string) \<times> server" where
  "convert lims acfg pcfg tiers env srv req =
    (if rq_validationErrors req \<noteq> [] then (Inl (ValidationError ''Invalid input data''), srv)
     else
       (case validateConversionRequest lims (rq_amount req) (rq_from req) (rq_to req) of
          Inl e \<Rightarrow> (Inl e, srv)
        | Inr v \<Rightarrow>
           if (truthy (rq_email req) \<or> truthy (rq_phone req)) \<and> \<not> env_userDetailsValid env
             then (Inl (ValidationError ''Invalid user details''), srv)
           else if env_fraudHigh env
             then (Inl (ValidationError ''Transaction blocked due to security concerns''), srv)
           else
             (case getMarketData acfg True (market srv) (env_spotOut env) (env_geckoOut env) (env_p2pOuts env) of
                (Inl e, m) \<Rightarrow> (Inl e, srv\<lparr>market := m\<rparr>)
              | (Inr marketData, m) \<Rightarrow>
                 (let competitive =
                        calculateCompetitiveRate pcfg (env_random1 env) (env_random2 env)
                          (p2pLowest (md_rates marketData))
                          (ngnRateWithMarkup (md_rates marketData))
                          (coinGeckoInr (md_rates marketData));
                      amount = (case rq_amount req of Some (JNum n) \<Rightarrow> n | _ \<Rightarrow> NaN);
                      grossInr = js_div amount (targetRate competitive)
                  in
                    (case calculateFees tiers grossInr of
                       Inl e \<Rightarrow> (Inl e, srv\<lparr>market := m\<rparr>)
                     | Inr fees \<Rightarrow>
                        (case createTransactionSession (env_encryptData env) (env_keyConfigured env)
                                (env_dbAccepts env) (env_newSessionId env) (env_timeNow env)
                                (srv\<lparr>market := m\<rparr>)
                                \<lparr>td_amount = amount, td_from = ''NGN'', td_to = ''INR'',
                                 td_exchangeRate = targetRate competitive,
                                 td_youGet = netAmount fees,
                                 td_feePercent = feePercent fees,
                                 td_feeAmount = feeAmount fees,
                                 td_ipAddress = rq_ip req,
                                 td_userAgent = rq_userAgent req\<rparr>
                                (userDetails_of req) of
                           (Inl e, srv') \<Rightarrow> (Inl e, srv')
                         | (Inr created, srv') \<Rightarrow> (Inr (fst created), srv')))))))"


subsection \<open>Sample order-book payloads\<close>

text \<open>An entry as the order-book API sends it, reduced to the fields the analyzer reads.\<close>

definition p2p_item :: "string \<Rightarrow> string \<Rightarrow> real \<Rightarrow> real \<Rightarrow> string \<Rightarrow> json" where
  "p2p_item pr qt orders rate nick =
    JObj [(''adv'', JObj [(''price'', JStr pr), (''surplusAmount'', JStr qt)]),
          (''advertiser'', JObj [(''monthOrderCount'', JNum (Num orders)),
                                 (''monthFinishRate'', JNum (Num rate)),
                                 (''nickName'', JStr nick)])]"

definition items_two_strict :: "json list" where
  "items_two_strict =
    [p2p_item ''90.5'' ''1200.00'' 512 0.98 ''bob'', JNull, p2p_item ''89'' ''800'' 400 0.99 ''al'']"



definition payload :: "json list \<Rightarrow> json" where
  "payload items = JObj [(''code'', JStr ''000000''), (''data'', JArr items)]"

subsection \<open>Sample fetch outcomes\<close>

definition spot_ok :: http_outcome where
  "spot_ok = Response 200 (Some (JObj [(''symbol'', JStr ''USDTINR''), (''price'', JStr ''88.42'')]))"

definition p2p_ok :: "nat \<Rightarrow> http_outcome" where
  "p2p_ok i = Response 200 (Some (payload items_two_strict))"

definition agg_empty :: agg_state where
  "agg_empty = \<lparr>cached = None, hits = 0, misses = 0\<rparr>"

definition stats_two_strict :: p2p_stats where
  "stats_two_strict =
    \<lparr>totalAds = 2, goodAds = 2, lowestRate = Num 89, simpleAvg = Num 89.75,
     weightedAvg = Num 89.9,
     topAds = [\<lparr>price = Num 89, qty = Num 800, trades = 400, completion = Num 99,
                nickname = JStr ''al'', userNo = JNull\<rparr>,
               \<lparr>price = Num 90.5, qty = Num 1200, trades = 512, completion = Num 98,
                nickname = JStr ''bob'', userNo = JNull\<rparr>]\<rparr>"


subsection \<open>Sample sessions and requests\<close>

definition srv_pending :: server where
  "srv_pending =
    \<lparr>transactions =
       [''s1'' \<mapsto> [''sessionId'' \<mapsto> JStr ''s1'', ''status'' \<mapsto> JStr ''pending'',
                  ''createdAt'' \<mapsto> JNum (Num 1000), ''expiresAt'' \<mapsto> JNum (Num 301000),
                  ''encryptedTransaction'' \<mapsto> JStr ''U2FsdGVkX18xyz'']],
     metrics_tx = \<lparr>tx_total = 1, tx_pending = 1, tx_completed = 0, tx_failed = 0\<rparr>,
     market = agg_empty\<rparr>"

definition charge_ok :: charge where
  "charge_ok =
    \<lparr>ch_success = True, ch_paidAmount = Some (JNum (Num 5000)),
     ch_paidAt = Some (JNum (Num 2500)), ch_channel = Some (JStr ''card''),
     ch_gateway_response = Some (JStr ''Successful''),
     ch_customerEmail = Some (JStr ''a@b.c'')\<rparr>"

definition event_s1 :: "error + (json option \<times> string option \<times> charge) option" where
  "event_s1 = Inr (Some (Some (JStr ''HP-s1-2000''), Some ''s1'', charge_ok))"


definition env_sample :: convert_env where
  "env_sample =
    \<lparr>env_userDetailsValid = True, env_fraudHigh = False, env_spotOut = spot_ok,
     env_geckoOut = NetworkError ''ECONNRESET'', env_p2pOuts = p2p_ok,
     env_random1 = 0.5, env_random2 = 0.5, env_newSessionId = ''s2'', env_timeNow = 5000,
     env_keyConfigured = True, env_dbAccepts = True, env_encryptData = (\<lambda>j. ''U2FsdGVkX18abc'')\<rparr>"

definition request_of :: "real \<Rightarrow> convert_request" where
  "request_of a =
    \<lparr>rq_validationErrors = [], rq_amount = Some (JNum (Num a)), rq_from = Some (JStr ''NGN''),
     rq_to = Some (JStr ''INR''), rq_customerName = None, rq_email = None, rq_phone = None,
     rq_paymentMethod = None, rq_receiveMethod = Some (JStr ''upi''),
     rq_ip = ''203.0.113.7'', rq_userAgent = ''curl/8''\<rparr>"

section \<open>Properties of the fee calculator\<close>



lemma tier_fees_Num:
  "tier_fees t (Num a) =
    \<lparr>feePercent = tier_percent t, feeAmount = Num (a * tier_percent t / 100),
     netAmount = Num (a - a * tier_percent t / 100)\<rparr>"
  by (simp add: tier_fees_def js_sub_def)

lemma calculateFees_part002_table:
  "calculateFees tiers_part002 (Num a) = calculateFees tiers_script (Num a)"
  by (simp add: calculateFees_def tiers_part002_def tiers_script_def tier_bound_def tier_fees_Num)



text \<open>
  C10. On the configured table (that of src/script.js, and the one the older server reads
  back from JSON) the fee percent never grows with the amount: for \<open>0 \<le> a \<le> b\<close> the percent
  applied to \<open>b\<close> is at most the percent applied to \<open>a\<close>.
\<close>

theorem calculateFees_percent_antimono:
  assumes "0 \<le> a" and "a \<le> b"
  shows "\<exists>fa fb. calculateFees tiers_script (Num a) = Inr fa
    \<and> calculateFees tiers_script (Num b) = Inr fb
    \<and> calculateFees tiers_part002 (Num a) = Inr fa
    \<and> calculateFees tiers_part002 (Num b) = Inr fb
    \<and> feePercent fb \<le> feePercent fa"
  using assms
  by (simp add: calculateFees_part002_table)
     (simp add: calculateFees_def tiers_script_def tier_bound_def tier_fees_Num)

theorem calculateFees_percent_antimono_witness:
  "(0::real) \<le> 9000 \<and> (9000::real) \<le> 60000
   \<and> (\<exists>fa fb. calculateFees tiers_script (Num 9000) = Inr fa
    \<and> calculateFees tiers_script (Num 60000) = Inr fb
    \<and> calculateFees tiers_part002 (Num 9000) = Inr fa
    \<and> calculateFees tiers_part002 (Num 60000) = Inr fb
    \<and> feePercent fb \<le> feePercent fa)"
proof -
  have h1: "(0::real) \<le> 9000" by simp
  have h2: "(9000::real) \<le> 60000" by simp
  from calculateFees_percent_antimono [OF h1 h2] h1 h2 show ?thesis by blast
qed

section \<open>Properties of the spot-price fetcher\<close>

lemmas parseFloat_eval =
  parseFloat_def parseFloat_str_def str_unsigned_def is_digit_def digit_val_def digits_val_def
  is_space_def pow10_def exponent_part_def Let_def





section \<open>Properties of the P2P analyzer\<close>





lemma analyze_ads_Inr:
  assumes "analyze_ads strict relaxed ads = Inr st"
  shows "quality_ads strict relaxed ads \<noteq> []"
    and "goodAds st = length (quality_ads strict relaxed ads)"
    and "topAds st = take 5 (sort_by_price (quality_ads strict relaxed ads))"
    and "topAds st \<noteq> []"
    and "weightedAvg st = weighted_average (topAds st)"
  using assms
  by (auto simp: analyze_ads_def Let_def split: if_splits list.splits)




lemma analyzeP2P_Inr:
  assumes "analyzeP2P strict relaxed data = Inr st"
  shows "\<exists>items. js_get data ''data'' = Some (JArr items)
     \<and> analyze_ads strict relaxed (List.map_filter parse_ad items) = Inr st"
proof (cases "js_get data ''data''")
  case None
  with assms show ?thesis by (simp add: analyzeP2P_def split: if_splits)
next
  case (Some v)
  show ?thesis
  proof (cases v)
    case (JArr items)
    with Some assms show ?thesis by (simp add: analyzeP2P_def split: if_splits)
  qed (use Some assms in \<open>simp_all add: analyzeP2P_def split: if_splits\<close>)
qed


lemma analyzeP2P_goodAds_positive:
  assumes "analyzeP2P strict relaxed data = Inr st"
  shows "1 \<le> goodAds st"
proof -
  from analyzeP2P_Inr [OF assms] obtain items where
    a: "analyze_ads strict relaxed (List.map_filter parse_ad items) = Inr st" by blast
  from analyze_ads_Inr(1,2) [OF a] show ?thesis
    by (cases "quality_ads strict relaxed (List.map_filter parse_ad items)") simp_all
qed

subsection \<open>The weighted average\<close>











lemmas parseInt_eval =
  parseInt_def parseInt_str_def int_unsigned_def is_hex_def hex_val_def parseInt_num_def

lemmas analyzer_eval =
  payload_def p2p_item_def parse_ad_def js_read_def js_or_def js_or_else_def parseFloat_eval
  parseInt_eval analyzeP2P_def analyze_ads_def quality_ads_def passes_def strict_default_def
  relaxed_default_def sort_by_price_def js_sub_def simple_average_def weighted_average_def
  totalWeight_def js_inf_def




section \<open>Properties of the pricing engine\<close>

lemma round2_Num:
  "round2 (Num x) = (Num f, z) \<Longrightarrow> x - 1 / 200 < f \<and> f \<le> x + 1 / 200"
proof -
  assume "round2 (Num x) = (Num f, z)"
  then have f: "f = real_of_int \<lfloor>x * 100 + 1 / 2\<rfloor> / 100" by simp
  have "real_of_int \<lfloor>x * 100 + 1 / 2\<rfloor> \<le> x * 100 + 1 / 2"
    and "x * 100 + 1 / 2 < real_of_int \<lfloor>x * 100 + 1 / 2\<rfloor> + 1" by linarith+
  then show ?thesis unfolding f by (simp add: field_simps)
qed

lemma round2_fst_Num: "\<exists>f z. round2 (Num x) = (Num f, z)"
  by (simp only: round2.simps) blast

lemma margin_pct_pos:
  assumes "0 < f"
  shows "margin_pct (Num f, z) (Num b) = Num ((f - b) / f * 100)"
  using assms by (simp add: margin_pct_def js_div_z_def js_sub_def)

lemma margin_ge_iff:
  fixes f b m :: real
  assumes "0 < f"
  shows "(m \<le> (f - b) / f * 100) = (b \<le> f * (1 - m / 100))"
  using assms by (simp add: field_simps)

lemma primary_rate_bounds:
  assumes "0 \<le> r1" and "r1 < 1"
  shows "\<exists>f z. round2 (Num (15.85 + r1 * (15.98 - 15.85))) = (Num f, z) \<and> 15.85 \<le> f \<and> f \<le> 15.98"
proof -
  let ?x = "15.85 + r1 * (15.98 - 15.85) :: real"
  let ?k = "\<lfloor>?x * 100 + 1 / 2\<rfloor>"
  have "1585 \<le> ?x * 100 + 1/2" using assms by simp
  then have "(1585::int) \<le> ?k" by (simp add: le_floor_iff)
  moreover have "?x * 100 + 1/2 < 1599" using assms by simp
  then have "?k < 1599" by (simp add: floor_less_iff)
  ultimately have b: "1585 \<le> real_of_int ?k" "real_of_int ?k \<le> 1598" by linarith+
  have "round2 (Num ?x) = (Num (real_of_int ?k / 100), - (1 / 2) \<le> ?x * 100 \<and> ?x * 100 < 0)"
    by simp
  moreover from b have "15.85 \<le> real_of_int ?k / 100" "real_of_int ?k / 100 \<le> 15.98" by simp_all
  ultimately show ?thesis by blast
qed

lemma forced_margin:
  fixes b :: real
  assumes "15.7 \<le> b"
  shows "\<exists>f m. targetRate (forced_result pricing_script (Num b)) = Num f \<and> b < f
     \<and> profitMargin (forced_result pricing_script (Num b)) = Num m \<and> 0.8 \<le> m"
proof -
  obtain f z where r: "round2 (Num (b * (1 + 0.8 / 100 + 0.01))) = (Num f, z)"
    using round2_fst_Num by blast
  from round2_Num [OF r] have lo: "b * (1 + 0.8 / 100 + 0.01) - 1 / 200 < f" by simp
  with assms have fpos: "0 < f" and bf: "b < f" by simp_all
  have "b \<le> f * (1 - 0.8 / 100)" using lo assms by simp
  then have m: "0.8 \<le> (f - b) / f * 100" using margin_ge_iff [OF fpos, of "0.8" b] by simp
  have "forced_result pricing_script (Num b) =
      \<lparr>baseCost = Num b, targetRate = Num f, profitMargin = Num ((f - b) / f * 100),
       savingsVsMin = Num (16.2 - f), savingsVsMax = Num (16.5 - f),
       savingsPercent = Num ((16.2 - f) / 16.2 * 100), usedCoinGeckoFallback = False,
       rateSource = ''P2P (Forced Minimum)'',
       warning = Some ''Rate adjusted to maintain minimum profit margin''\<rparr>"
    using r margin_pct_pos [OF fpos, of z b]
    by (simp add: forced_result_def pricing_script_def Let_def js_sub_def del: round2.simps)
  with m bf show ?thesis by simp
qed

lemma fallback_margin:
  fixes cb r2 :: real
  assumes "1.02 \<le> cb" and "0 \<le> r2" and "r2 < 1" and "0 < c" and "cb = ngn / c"
  shows "\<exists>f m. targetRate (fallback_result pricing_script r2 (Num ngn) (Num c)) = Num f \<and> cb < f
     \<and> profitMargin (fallback_result pricing_script r2 (Num ngn) (Num c)) = Num m \<and> 0.8 \<le> m"
proof -
  let ?x1 = "cb * (1 + 2.5 / 100) + (r2 * 0.1 - 0.05)"
  have d: "js_div (Num ngn) (Num c) = Num cb" using assms by simp
  obtain f1 z1 where r1: "round2 (Num ?x1) = (Num f1, z1)" using round2_fst_Num by blast
  obtain f2 z2 where r2: "round2 (Num (cb * (1 + 0.8 / 100 + 0.005))) = (Num f2, z2)"
    using round2_fst_Num by blast
  from round2_Num [OF r1] assms have f1pos: "0 < f1" by simp
  from round2_Num [OF r2] assms have f2pos: "0 < f2" and c2: "cb \<le> f2 * (1 - 0.8 / 100)" by simp_all
  from c2 f2pos have bf2: "cb < f2" by simp
  note m1 = margin_pct_pos [OF f1pos, of z1 cb]
  note m2 = margin_pct_pos [OF f2pos, of z2 cb]
  show ?thesis
  proof (cases "(f1 - cb) / f1 * 100 < 0.8")
    case True
    then have "fallback_result pricing_script r2 (Num ngn) (Num c) =
      \<lparr>baseCost = Num cb, targetRate = Num f2, profitMargin = Num ((f2 - cb) / f2 * 100),
       savingsVsMin = Num (16.2 - f2), savingsVsMax = Num (16.5 - f2),
       savingsPercent = Num ((16.2 - f2) / 16.2 * 100), usedCoinGeckoFallback = True,
       rateSource = ''CoinGecko (Fallback)'', warning = None\<rparr>"
      using r1 r2 m1 m2 d
      by (simp add: fallback_result_def pricing_script_def Let_def js_sub_def del: round2.simps)
    moreover have "0.8 \<le> (f2 - cb) / f2 * 100"
      using margin_ge_iff [OF f2pos, of "0.8" cb] c2 by simp
    ultimately show ?thesis using bf2 by simp
  next
    case False
    then have "fallback_result pricing_script r2 (Num ngn) (Num c) =
      \<lparr>baseCost = Num cb, targetRate = Num f1, profitMargin = Num ((f1 - cb) / f1 * 100),
       savingsVsMin = Num (16.2 - f1), savingsVsMax = Num (16.5 - f1),
       savingsPercent = Num ((16.2 - f1) / 16.2 * 100), usedCoinGeckoFallback = True,
       rateSource = ''CoinGecko (Fallback)'', warning = None\<rparr>"
      using r1 r2 m1 m2 d
      by (simp add: fallback_result_def pricing_script_def Let_def js_sub_def del: round2.simps)
    moreover from False have m: "0.8 \<le> (f1 - cb) / f1 * 100" by simp
    moreover from m have "cb \<le> f1 * (1 - 0.8 / 100)"
      using margin_ge_iff [OF f1pos, of "0.8" cb] by simp
    with f1pos have "cb < f1" by simp
    ultimately show ?thesis by simp
  qed
qed

text \<open>
  Where the invariant of the pricing engine does hold, with the configuration of
  src/script.js: for positive finite rates, when there is no usable CoinGecko rate, or when
  the cost against the CoinGecko rate is at least 1.02, every rung returns a rate above its
  cost with a margin of at least 0.8 percent.
\<close>

lemma calculateCompetitiveRate_margin:
  fixes low ngn r1 r2 :: real
  assumes "0 < low" and "0 < ngn" and "0 \<le> r1" and "r1 < 1" and "0 \<le> r2" and "r2 < 1"
    and cg: "cg = None \<or> (\<exists>c. cg = Some (Num c) \<and> (c \<le> 0 \<or> 1.02 \<le> ngn / c))"
  shows "\<exists>b f m. baseCost (calculateCompetitiveRate pricing_script r1 r2 (Num low) (Num ngn) cg) = Num b
     \<and> targetRate (calculateCompetitiveRate pricing_script r1 r2 (Num low) (Num ngn) cg) = Num f
     \<and> b < f
     \<and> profitMargin (calculateCompetitiveRate pricing_script r1 r2 (Num low) (Num ngn) cg) = Num m
     \<and> 0.8 \<le> m"
proof -
  define b where "b = ngn / low"
  have bpos: "0 < b" using assms by (simp add: b_def)
  have d: "js_div (Num ngn) (Num low) = Num b" using assms by (simp add: b_def)
  from primary_rate_bounds [OF assms(3,4)] obtain f0 z0 where
    r0: "round2 (Num (15.85 + r1 * (15.98 - 15.85))) = (Num f0, z0)"
    and f0: "15.85 \<le> f0" "f0 \<le> 15.98" by blast
  from f0 have f0pos: "0 < f0" by simp
  note m0 = margin_pct_pos [OF f0pos, of z0 b]
  show ?thesis
  proof (cases "(f0 - b) / f0 * 100 < 0.8")
    case False
    then have "calculateCompetitiveRate pricing_script r1 r2 (Num low) (Num ngn) cg
        = primary_result pricing_script (Num b) (Num f0, z0) (Num ((f0 - b) / f0 * 100))"
      using r0 m0 d
      by (simp add: calculateCompetitiveRate_def pricing_script_def Let_def del: round2.simps)
    moreover from False have m: "0.8 \<le> (f0 - b) / f0 * 100" by simp
    moreover from m have "b \<le> f0 * (1 - 0.8 / 100)"
      using margin_ge_iff [OF f0pos, of "0.8" b] by simp
    with f0pos have "b < f0" by simp
    ultimately show ?thesis by (simp add: primary_result_def Let_def)
  next
    case True
    then have "\<not> b \<le> f0 * (1 - 0.8 / 100)"
      using margin_ge_iff [OF f0pos, of "0.8" b] by simp
    with f0 have big: "15.7 \<le> b" by simp
    have low_margin: "js_lt (margin_pct (Num f0, z0) (Num b)) (Num 0.8)"
      using True m0 by simp
    show ?thesis
    proof (cases "\<exists>c. cg = Some (Num c) \<and> 0 < c")
      case False
      with cg have "calculateCompetitiveRate pricing_script r1 r2 (Num low) (Num ngn) cg
          = forced_result pricing_script (Num b)"
        using r0 low_margin d
        by (auto simp: calculateCompetitiveRate_def pricing_script_def Let_def simp del: round2.simps)
      moreover have "baseCost (forced_result pricing_script (Num b)) = Num b"
        by (simp add: forced_result_def Let_def)
      ultimately show ?thesis using forced_margin [OF big] by auto
    next
      case avail: True
      then obtain c where c: "cg = Some (Num c)" "0 < c" by blast
      with cg have cb: "1.02 \<le> ngn / c" by auto
      from c have "calculateCompetitiveRate pricing_script r1 r2 (Num low) (Num ngn) cg
          = fallback_result pricing_script r2 (Num ngn) (Num c)"
        using r0 low_margin d
        by (simp add: calculateCompetitiveRate_def pricing_script_def Let_def del: round2.simps)
      moreover have "baseCost (fallback_result pricing_script r2 (Num ngn) (Num c)) = Num (ngn / c)"
        using c by (simp add: fallback_result_def Let_def)
      ultimately show ?thesis
        using fallback_margin [OF cb assms(5,6) c(2) refl] by auto
    qed
  qed
qed

text \<open>The older server returns no result below its configured margin: it raises instead.\<close>

lemma calculateCompetitiveRate_old_margin:
  fixes low ngn :: real
  assumes "calculateCompetitiveRate_old cfg r (Num low) (Num ngn) = Inr res"
  shows "\<not> js_lt (profitMargin_old res) (Num (minProfitMargin_old cfg))"
  using assms
  by (auto simp: calculateCompetitiveRate_old_def Let_def split: if_splits)

lemmas pricing_eval =
  calculateCompetitiveRate_def fallback_result_def forced_result_def primary_result_def
  margin_pct_def js_div_z_def js_sub_def js_inf_def pricing_script_def Let_def

text \<open>
  C1. The invariant (every returned \<^verbatim>\<open>profitMargin\<close> is at least the configured minimum,
  never negative, and no rate is below cost) fails on the forced-minimum step of the
  CoinGecko fallback. With the lowest P2P rate 70, the marked-up NGN rate 3010, the
  CoinGecko INR rate 10000 and the second random draw 0.4, the primary margin is negative,
  the fallback cost is 0.301, the jittered target 0.2985 rounds to 0.30, and the forced rate
  \<open>0.301 * 1.013 = 0.3049\<close> rounds to 0.30 again: the function returns the rate 0.30 for
  a cost of 0.301, with a margin of \<open>-1/3\<close> percent.
\<close>

theorem calculateCompetitiveRate_fallback_below_cost:
  "calculateCompetitiveRate pricing_script 0 0.4 (Num 70) (Num 3010) (Some (Num 10000))
     = \<lparr>baseCost = Num 0.301, targetRate = Num 0.3, profitMargin = Num (- (1 / 3)),
        savingsVsMin = Num 15.9, savingsVsMax = Num 16.2, savingsPercent = Num (2650 / 27),
        usedCoinGeckoFallback = True, rateSource = ''CoinGecko (Fallback)'', warning = None\<rparr>
   \<and> js_lt (Num (- (1 / 3))) (Num (minProfitMargin pricing_script - 1 / 10 ^ 6))
   \<and> js_lt (Num (- (1 / 3))) (Num 0)
   \<and> js_lt (Num 0.3) (Num 0.301)"
  by (simp add: pricing_eval)

section \<open>Properties of the market data aggregator\<close>

lemma fetchBinanceP2P_Inr:
  assumes "fetchBinanceP2P n outs = Inr d"
  shows "truthy (Some d)"
  using assms
  by (simp add: fetchBinanceP2P_def split: sum.splits option.splits if_splits json.splits)

lemma source_error_other:
  "s \<noteq> t \<Longrightarrow> filter (\<lambda>x. fst x = t) (source_error s r) = []"
  by (cases r) (simp_all add: source_error_def)

text \<open>
  C2. On a cache miss of \<open>getMarketData\<close> (src/script.js): when the order-book fetch and
  its analysis succeed and the CoinGecko fetch fails, the aggregation succeeds, the NGN rate
  is the configured fallback constant plus the markup, \<^verbatim>\<open>usedFallback\<close> is true, the
  snapshot is cached, and \<^verbatim>\<open>errors\<close> has exactly one entry for the source
  \<^verbatim>\<open>coinGecko\<close>; when the order-book fetch fails the aggregation raises
  "Critical: P2P data unavailable", and when the analysis fails it raises that error.
\<close>

theorem getMarketData_reference_failure:
  assumes miss: "\<not> useCache \<or> cached st = None"
  shows "(\<forall>p2pData p2pStats e.
            fetchBinanceP2P (maxRetries cfg) p2pOuts = Inr p2pData
          \<and> analyzeP2P (strictFilter cfg) (relaxedFilter cfg) p2pData = Inr p2pStats
          \<and> fetchCoinGecko geckoOut = Inl e
        \<longrightarrow> (\<exists>md errs.
              getMarketData cfg useCache st spotOut geckoOut p2pOuts
                = (Inr md, st\<lparr>misses := misses st + 1, cached := Some md\<rparr>)
            \<and> ngnRateWithMarkup (md_rates md) = Num (fallbackNgnRate cfg + markup cfg)
            \<and> usedFallback (md_rates md) = Some True
            \<and> md_p2p md = p2pStats
            \<and> md_errors md = Some errs
            \<and> filter (\<lambda>x. fst x = ''coinGecko'') errs = [(''coinGecko'', message e)]))
    \<and> (\<forall>e. fetchBinanceP2P (maxRetries cfg) p2pOuts = Inl e
        \<longrightarrow> getMarketData cfg useCache st spotOut geckoOut p2pOuts
            = (Inl (ExternalAPIError ''Critical: P2P data unavailable''),
               st\<lparr>misses := misses st + 1\<rparr>))
    \<and> (\<forall>p2pData e.
            fetchBinanceP2P (maxRetries cfg) p2pOuts = Inr p2pData
          \<and> analyzeP2P (strictFilter cfg) (relaxedFilter cfg) p2pData = Inl e
        \<longrightarrow> getMarketData cfg useCache st spotOut geckoOut p2pOuts
            = (Inl e, st\<lparr>misses := misses st + 1\<rparr>))"
proof -
  from miss have c: "(if useCache then cached st else None) = None" by auto
  have a: "\<exists>md errs.
              getMarketData cfg useCache st spotOut geckoOut p2pOuts
                = (Inr md, st\<lparr>misses := misses st + 1, cached := Some md\<rparr>)
            \<and> ngnRateWithMarkup (md_rates md) = Num (fallbackNgnRate cfg + markup cfg)
            \<and> usedFallback (md_rates md) = Some True
            \<and> md_p2p md = p2pStats
            \<and> md_errors md = Some errs
            \<and> filter (\<lambda>x. fst x = ''coinGecko'') errs = [(''coinGecko'', message e)]"
    if p: "fetchBinanceP2P (maxRetries cfg) p2pOuts = Inr p2pData"
      and an: "analyzeP2P (strictFilter cfg) (relaxedFilter cfg) p2pData = Inr p2pStats"
      and g: "fetchCoinGecko geckoOut = Inl e" for p2pData p2pStats e
  proof -
    let ?errs = "source_error ''binanceSpot'' (fetchBinanceSpot spotOut) @ [(''coinGecko'', message e)]"
    have f: "filter (\<lambda>x. fst x = ''coinGecko'') ?errs = [(''coinGecko'', message e)]"
      by (simp add: source_error_other)
    have "getMarketData cfg useCache st spotOut geckoOut p2pOuts =
       (Inr \<lparr>md_rates =
               \<lparr>binanceSpot = (case fetchBinanceSpot spotOut of Inl e \<Rightarrow> None | Inr v \<Rightarrow> Some v),
                coinGeckoInr = None, coinGeckoNgn = None,
                ngnRateWithMarkup = Num (fallbackNgnRate cfg + markup cfg),
                p2pLowest = lowestRate p2pStats, usedFallback = Some True\<rparr>,
             md_p2p = p2pStats, md_errors = Some ?errs\<rparr>,
        st\<lparr>misses := misses st + 1,
           cached := Some \<lparr>md_rates =
               \<lparr>binanceSpot = (case fetchBinanceSpot spotOut of Inl e \<Rightarrow> None | Inr v \<Rightarrow> Some v),
                coinGeckoInr = None, coinGeckoNgn = None,
                ngnRateWithMarkup = Num (fallbackNgnRate cfg + markup cfg),
                p2pLowest = lowestRate p2pStats, usedFallback = Some True\<rparr>,
             md_p2p = p2pStats, md_errors = Some ?errs\<rparr>\<rparr>)"
      using fetchBinanceP2P_Inr [OF p]
      by (simp add: getMarketData_def c p an g Let_def source_error_def num_truthy_def)
    with f show ?thesis by simp
  qed
  have b: "getMarketData cfg useCache st spotOut geckoOut p2pOuts
            = (Inl (ExternalAPIError ''Critical: P2P data unavailable''),
               st\<lparr>misses := misses st + 1\<rparr>)"
    if "fetchBinanceP2P (maxRetries cfg) p2pOuts = Inl e" for e
    using that by (simp add: getMarketData_def c Let_def)
  have d: "getMarketData cfg useCache st spotOut geckoOut p2pOuts
            = (Inl e, st\<lparr>misses := misses st + 1\<rparr>)"
    if p: "fetchBinanceP2P (maxRetries cfg) p2pOuts = Inr p2pData"
      and an: "analyzeP2P (strictFilter cfg) (relaxedFilter cfg) p2pData = Inl e" for p2pData e
    using fetchBinanceP2P_Inr [OF p]
    by (simp add: getMarketData_def c p an Let_def)
  from a b d show ?thesis by blast
qed

theorem getMarketData_reference_failure_witness:
  "cached agg_empty = None
   \<and> fetchBinanceP2P (maxRetries agg_script) p2p_ok = Inr (payload items_two_strict)
   \<and> analyzeP2P (strictFilter agg_script) (relaxedFilter agg_script) (payload items_two_strict)
       = Inr stats_two_strict
   \<and> fetchCoinGecko (NetworkError ''ECONNRESET'')
       = Inl (ExternalAPIError ''Network request failed'')
   \<and> (\<exists>md errs.
          getMarketData agg_script True agg_empty spot_ok (NetworkError ''ECONNRESET'') p2p_ok
            = (Inr md, agg_empty\<lparr>misses := misses agg_empty + 1, cached := Some md\<rparr>)
        \<and> ngnRateWithMarkup (md_rates md) = Num (fallbackNgnRate agg_script + markup agg_script)
        \<and> usedFallback (md_rates md) = Some True
        \<and> md_p2p md = stats_two_strict
        \<and> md_errors md = Some errs
        \<and> filter (\<lambda>x. fst x = ''coinGecko'') errs
            = [(''coinGecko'', message (ExternalAPIError ''Network request failed''))])
   \<and> fetchBinanceP2P (maxRetries agg_script) (\<lambda>i. Timeout)
       = Inl (ExternalAPIError ''Request timeout'')
   \<and> getMarketData agg_script True agg_empty spot_ok (NetworkError ''ECONNRESET'') (\<lambda>i. Timeout)
       = (Inl (ExternalAPIError ''Critical: P2P data unavailable''),
          agg_empty\<lparr>misses := misses agg_empty + 1\<rparr>)"
proof -
  have h0: "cached agg_empty = None" by (simp add: agg_empty_def)
  have h1: "fetchBinanceP2P (maxRetries agg_script) p2p_ok = Inr (payload items_two_strict)"
    by (simp add: fetchBinanceP2P_def agg_script_def p2p_ok_def httpRequest_def payload_def
        items_two_strict_def eval_nat_numeral)
  have h2: "analyzeP2P (strictFilter agg_script) (relaxedFilter agg_script)
      (payload items_two_strict) = Inr stats_two_strict"
    by (simp add: agg_script_def stats_two_strict_def items_two_strict_def analyzer_eval)
  have h3: "fetchCoinGecko (NetworkError ''ECONNRESET'')
       = Inl (ExternalAPIError ''Network request failed'')"
    by (simp add: fetchCoinGecko_def httpRequest_def)
  have h4: "fetchBinanceP2P (maxRetries agg_script) (\<lambda>i. Timeout)
       = Inl (ExternalAPIError ''Request timeout'')"
    by (simp add: fetchBinanceP2P_def agg_script_def httpRequest_def eval_nat_numeral)
  have m: "\<not> True \<or> cached agg_empty = None" using h0 by simp
  note t1 = getMarketData_reference_failure [OF m, of agg_script p2p_ok
      "NetworkError ''ECONNRESET''" spot_ok]
  note t2 = getMarketData_reference_failure [OF m, of agg_script "\<lambda>i. Timeout"
      "NetworkError ''ECONNRESET''" spot_ok]
  from t1 h1 h2 h3 have c1: "\<exists>md errs.
          getMarketData agg_script True agg_empty spot_ok (NetworkError ''ECONNRESET'') p2p_ok
            = (Inr md, agg_empty\<lparr>misses := misses agg_empty + 1, cached := Some md\<rparr>)
        \<and> ngnRateWithMarkup (md_rates md) = Num (fallbackNgnRate agg_script + markup agg_script)
        \<and> usedFallback (md_rates md) = Some True
        \<and> md_p2p md = stats_two_strict
        \<and> md_errors md = Some errs
        \<and> filter (\<lambda>x. fst x = ''coinGecko'') errs
            = [(''coinGecko'', message (ExternalAPIError ''Network request failed''))]"
    by blast
  from t2 h4 have c2:
    "getMarketData agg_script True agg_empty spot_ok (NetworkError ''ECONNRESET'') (\<lambda>i. Timeout)
       = (Inl (ExternalAPIError ''Critical: P2P data unavailable''),
          agg_empty\<lparr>misses := misses agg_empty + 1\<rparr>)"
    by blast
  from h0 h1 h2 h3 h4 c1 c2 show ?thesis by blast
qed

text \<open>
  The older server has no fallback constant: there the same failure of the CoinGecko fetch
  makes the aggregation raise.
\<close>

lemma getMarketData_old_reference_failure:
  assumes "\<not> useCache \<or> cached st = None"
    and "fetchBinanceP2P (maxRetries cfg) p2pOuts = Inr p2pData"
    and "fetchCoinGecko geckoOut = Inl e"
  shows "getMarketData_old cfg useCache st spotOut geckoOut p2pOuts
     = (Inl (ExternalAPIError ''Critical: NGN rate unavailable''), st\<lparr>misses := misses st + 1\<rparr>)"
proof -
  from assms(1) have c: "(if useCache then cached st else None) = None" by auto
  show ?thesis
    using fetchBinanceP2P_Inr [OF assms(2)]
    by (simp add: getMarketData_old_def c assms(2,3) Let_def)
qed

text \<open>
  So the claim as the specification states it (for every aggregation run) fails on the
  older server: with the order book fetched and analysed and the CoinGecko request failing,
  its \<open>getMarketData\<close> raises.
\<close>

theorem getMarketData_old_raises_on_reference_failure:
  "fetchBinanceP2P (maxRetries agg_part002) p2p_ok = Inr (payload items_two_strict)
   \<and> analyzeP2P (strictFilter agg_part002) (relaxedFilter agg_part002) (payload items_two_strict)
       = Inr stats_two_strict
   \<and> fetchCoinGecko (NetworkError ''ECONNRESET'')
       = Inl (ExternalAPIError ''Network request failed'')
   \<and> cached agg_empty = None
   \<and> getMarketData_old agg_part002 True agg_empty spot_ok (NetworkError ''ECONNRESET'') p2p_ok
       = (Inl (ExternalAPIError ''Critical: NGN rate unavailable''),
          agg_empty\<lparr>misses := misses agg_empty + 1\<rparr>)"
proof -
  have h0: "cached agg_empty = None" by (simp add: agg_empty_def)
  have h1: "fetchBinanceP2P (maxRetries agg_part002) p2p_ok = Inr (payload items_two_strict)"
    by (simp add: fetchBinanceP2P_def agg_part002_def p2p_ok_def httpRequest_def payload_def
        items_two_strict_def eval_nat_numeral)
  have h2: "analyzeP2P (strictFilter agg_part002) (relaxedFilter agg_part002)
      (payload items_two_strict) = Inr stats_two_strict"
    by (simp add: agg_part002_def stats_two_strict_def items_two_strict_def analyzer_eval)
  have h3: "fetchCoinGecko (NetworkError ''ECONNRESET'')
       = Inl (ExternalAPIError ''Network request failed'')"
    by (simp add: fetchCoinGecko_def httpRequest_def)
  have m: "\<not> True \<or> cached agg_empty = None" using h0 by simp
  from getMarketData_old_reference_failure [OF m h1 h3, of spot_ok] h0 h1 h2 h3
  show ?thesis by simp
qed

section \<open>Properties of the transaction sessions\<close>

lemma apply_update_other: "k \<noteq> fst u \<Longrightarrow> apply_update s u k = s k"
  by (cases "(s, u)" rule: apply_update.cases) auto

lemma foldl_apply_update_other:
  "k \<notin> fst ` set ups \<Longrightarrow> foldl apply_update s ups k = s k"
  by (induction ups arbitrary: s) (auto simp: apply_update_other)

lemma fb_update_other:
  assumes "fb_update ok db sid ups = Inr db'" and "k \<notin> fst ` set ups"
  shows "(case db' sid' of None \<Rightarrow> None | Some s \<Rightarrow> s k)
       = (case db sid' of None \<Rightarrow> None | Some s \<Rightarrow> s k)"
proof -
  from assms(1) have db': "db' = db(sid \<mapsto> foldl apply_update
      (case db sid of None \<Rightarrow> Map.empty | Some s \<Rightarrow> s) ups)"
    by (simp add: fb_update_def split: if_splits)
  show ?thesis
  proof (cases "sid' = sid")
    case True
    then show ?thesis
      using foldl_apply_update_other [OF assms(2)]
      by (simp add: db' split: option.splits)
  next
    case False
    then show ?thesis by (simp add: db')
  qed
qed

lemma db_update_other:
  assumes "k \<notin> fst ` set ups"
  shows "session_field (snd (db_update ok srv sid ups)) sid' k = session_field srv sid' k"
proof (cases "fb_update ok (transactions srv) sid ups")
  case (Inl e)
  then show ?thesis by (simp add: db_update_def)
next
  case (Inr db)
  from fb_update_other [OF Inr assms, of sid'] Inr show ?thesis
    by (simp add: db_update_def session_field_def)
qed

lemma db_update_metrics:
  "metrics_tx (snd (db_update ok srv sid ups)) = metrics_tx srv"
  by (simp add: db_update_def split: sum.splits)

lemma session_field_metrics_update [simp]:
  "session_field (srv\<lparr>metrics_tx := m\<rparr>) sid k = session_field srv sid k"
  by (simp add: session_field_def)

lemma snd_case_sum_pair:
  "snd (case p of (Inl e, s) \<Rightarrow> (f e, s) | (Inr u, s) \<Rightarrow> (g u, s)) = snd p"
  by (cases p; cases "fst p") auto

lemma updateTransactionStatus_other:
  assumes "k \<notin> fst ` set additionalData" and "k \<noteq> ''status''" and "k \<noteq> ''updatedAt''"
  shows "session_field (snd (updateTransactionStatus ok now srv sid status additionalData)) sid' k
       = session_field srv sid' k"
proof -
  let ?ups = "[(''status'', Some (JStr status)), (''updatedAt'', Some (JNum (Num now)))]
             @ additionalData"
  from assms have k: "k \<notin> fst ` set ?ups" by auto
  obtain r srv' where d: "db_update ok srv sid ?ups = (r, srv')" by (cases "db_update ok srv sid ?ups")
  from db_update_other [OF k, of ok srv sid sid'] d
  have "session_field srv' sid' k = session_field srv sid' k" by simp
  with d show ?thesis by (cases r) (simp_all add: updateTransactionStatus_def)
qed

lemma locked_field_cases:
  "k \<in> set locked_fields \<Longrightarrow>
   k = ''sessionId'' \<or> k = ''createdAt'' \<or> k = ''expiresAt'' \<or> k = ''encryptedUserDetails''
   \<or> k = ''encryptedTransaction'' \<or> k = ''summary'' \<or> k = ''ipAddress'' \<or> k = ''userAgent''"
  by (simp add: locked_fields_def)

lemma payment_initialize_locked:
  assumes "k \<in> set locked_fields"
  shows "session_field (snd (payment_initialize ok dec now ref srv sid)) sid' k
       = session_field srv sid' k"
proof -
  have k: "k \<notin> fst ` set [(''paystackReference'', Some (JStr ref)),
                              (''paystackInitializedAt'', Some (JNum (Num now))),
                              (''status'', Some (JStr ''payment_initiated''))]"
    using locked_field_cases [OF assms] by auto
  show ?thesis
    by (simp add: payment_initialize_def snd_case_sum_pair db_update_other [OF k]
        split: option.splits json.splits)
qed

lemma verify_manual_locked:
  assumes "k \<in> set locked_fields"
  shows "session_field (snd (verify_manual ok now srv ref sid v)) sid' k = session_field srv sid' k"
proof -
  have k1: "k \<notin> fst ` set [(''status'', Some (JStr ''completed'')),
                           (''paystackReference'', Some (JStr r)),
                           (''paidAmount'', a),
                           (''paidAt'', Some (JNum (Num now))),
                           (''paymentChannel'', c),
                           (''verifiedAt'', Some (JNum (Num now)))]" for r a c
    using locked_field_cases [OF assms] by auto
  have k2: "k \<notin> fst ` set [(''status'', Some (JStr ''failed'')),
                           (''failureReason'', g),
                           (''failedAt'', Some (JNum (Num now)))]" for g
    using locked_field_cases [OF assms] by auto
  show ?thesis
    by (simp add: verify_manual_def snd_case_sum_pair db_update_other [OF k1]
        db_update_other [OF k2] split: option.splits sum.splits)
qed

lemma verify_callback_locked:
  assumes "k \<in> set locked_fields"
  shows "session_field (verify_callback ok now srv ref sid v) sid' k = session_field srv sid' k"
proof -
  note c = locked_field_cases [OF assms]
  have k1: "k \<notin> fst ` set [(''paystackReference'', Some (JStr r)),
                          (''paidAmount'', a),
                          (''paidAt'', t),
                          (''paymentChannel'', c),
                          (''paymentGateway'', Some (JStr ''Paystack'')),
                          (''customerEmail'', e),
                          (''verifiedAt'', Some (JNum (Num now)))]" for r a t c e
    using c by auto
  have k2: "k \<notin> fst ` set [(''paystackReference'', Some (JStr r)),
                          (''failureReason'', g),
                          (''failedAt'', Some (JNum (Num now)))]" for r g
    using c by auto
  have s: "k \<noteq> ''status''" "k \<noteq> ''updatedAt''" using c by auto
  show ?thesis
    by (simp add: verify_callback_def updateTransactionStatus_other [OF k1 s]
        updateTransactionStatus_other [OF k2 s] split: option.splits sum.splits)
qed

lemma webhook_paystack_locked:
  assumes "k \<in> set locked_fields"
  shows "session_field (snd (webhook_paystack ok now srv sig ev)) sid' k = session_field srv sid' k"
proof -
  note c = locked_field_cases [OF assms]
  have k1: "k \<notin> fst ` set [(''paystackReference'', r),
                    (''paidAmount'', a),
                    (''paidAt'', t),
                    (''paymentChannel'', c),
                    (''webhookReceivedAt'', Some (JNum (Num now)))]" for r a t c
    using c by auto
  have s: "k \<noteq> ''status''" "k \<noteq> ''updatedAt''" using c by auto
  have e: "snd (case p of (Inl e, s) \<Rightarrow> (500::nat, s) | (Inr b, s) \<Rightarrow> (200, s)) = snd p" for p :: "(error + bool) \<times> server"
    by (cases p; cases "fst p") auto
  show ?thesis
    by (simp add: webhook_paystack_def e updateTransactionStatus_other [OF k1 s]
        split: option.splits sum.splits prod.splits)
qed

lemma admin_status_locked:
  assumes "k \<in> set locked_fields"
  shows "session_field (snd (admin_status ok now srv auth sid st pp notes ip)) sid' k
       = session_field srv sid' k"
proof -
  note c = locked_field_cases [OF assms]
  have k1: "k \<notin> fst ` set [(''paymentProof'', pp), (''notes'', notes),
      (''updatedBy'', Some (JStr ip))]"
    using c by auto
  have s: "k \<noteq> ''status''" "k \<noteq> ''updatedAt''" using c by auto
  show ?thesis
    by (simp add: admin_status_def updateTransactionStatus_other [OF k1 s]
        split: option.splits json.splits)
qed

lemma transition_step_locked:
  assumes "k \<in> set locked_fields"
  shows "session_field (transition_step srv t) sid k = session_field srv sid k"
  using assms
  by (cases t)
     (simp_all add: payment_initialize_locked verify_manual_locked verify_callback_locked
        webhook_paystack_locked admin_status_locked)

lemma foldl_transition_step_locked:
  assumes "k \<in> set locked_fields"
  shows "session_field (foldl transition_step srv ts) sid k = session_field srv sid k"
  using assms
  by (induction ts arbitrary: srv) (simp_all add: transition_step_locked)



text \<open>
  In particular the record a successful creation stores is still there after any
  transitions.
\<close>

lemma createTransactionSession_locks:
  "session_field
     (foldl transition_step
        (snd (createTransactionSession enc True True sid now srv td ud)) ts)
     sid ''encryptedTransaction''
   = Some (JStr (enc (locked_transaction td)))"
proof -
  have "''encryptedTransaction'' \<in> set locked_fields" by (simp add: locked_fields_def)
  from foldl_transition_step_locked [OF this] show ?thesis
    by (simp add: createTransactionSession_def session_field_def Let_def)
qed

subsection \<open>Completing a session twice\<close>

lemma foldl_apply_update_first:
  assumes "k \<notin> fst ` set rest" and "v \<noteq> JNull"
  shows "foldl apply_update s ((k, Some v) # rest) k = Some v"
proof -
  have "apply_update s (k, Some v) k = Some v" using assms(2) by (cases v) simp_all
  with foldl_apply_update_other [OF assms(1)] show ?thesis by simp
qed

lemma updateTransactionStatus_Inr:
  assumes "updateTransactionStatus ok now srv sid status additionalData = (Inr b, srv')"
    and "''status'' \<notin> fst ` set additionalData"
  shows "session_field srv' sid ''status'' = Some (JStr status)"
    and "metrics_tx srv' = count_status status (metrics_tx srv)"
proof -
  let ?ups = "[(''status'', Some (JStr status)), (''updatedAt'', Some (JNum (Num now)))]
             @ additionalData"
  from assms(1) obtain db where f: "fb_update ok (transactions srv) sid ?ups = Inr db"
    and s: "srv' = srv\<lparr>transactions := db, metrics_tx := count_status status (metrics_tx srv)\<rparr>"
    by (auto simp: updateTransactionStatus_def db_update_def split: sum.splits)
  from f have db: "db = (transactions srv)(sid \<mapsto> foldl apply_update
      (case transactions srv sid of None \<Rightarrow> Map.empty | Some s \<Rightarrow> s) ?ups)"
    by (simp add: fb_update_def split: if_splits)
  from assms(2) have "''status'' \<notin> fst ` set ((''updatedAt'', Some (JNum (Num now))) # additionalData)"
    by auto
  from foldl_apply_update_first [OF this, of "JStr status"]
  show "session_field srv' sid ''status'' = Some (JStr status)"
    by (simp add: s db session_field_def)
  show "metrics_tx srv' = count_status status (metrics_tx srv)" by (simp add: s)
qed

lemma webhook_paystack_200:
  assumes "webhook_paystack ok now srv True (Inr (Some (ref, Some sid, ch))) = (200, srv')"
  shows "session_field srv' sid ''status'' = Some (JStr ''completed'')"
    and "tx_completed (metrics_tx srv') = tx_completed (metrics_tx srv) + 1"
    and "tx_pending (metrics_tx srv') = tx_pending (metrics_tx srv) - 1"
proof -
  let ?ad = "[(''paystackReference'', ref), (''paidAmount'', ch_paidAmount ch),
     (''paidAt'', ch_paidAt ch), (''paymentChannel'', ch_channel ch),
     (''webhookReceivedAt'', Some (JNum (Num now)))]"
  from assms obtain b where u: "updateTransactionStatus ok now srv sid ''completed'' ?ad = (Inr b, srv')"
    by (auto simp: webhook_paystack_def split: prod.splits sum.splits)
  have n: "''status'' \<notin> fst ` set ?ad" by simp
  note r = updateTransactionStatus_Inr [OF u n]
  show "session_field srv' sid ''status'' = Some (JStr ''completed'')" by (rule r(1))
  show "tx_completed (metrics_tx srv') = tx_completed (metrics_tx srv) + 1"
    and "tx_pending (metrics_tx srv') = tx_pending (metrics_tx srv) - 1"
    by (simp_all add: r(2) count_status_def)
qed

lemma verify_manual_metrics:
  "metrics_tx (snd (verify_manual ok now srv ref sid v)) = metrics_tx srv"
  by (simp add: verify_manual_def snd_case_sum_pair db_update_metrics
      split: option.splits sum.splits)

lemma db_update_Inr_first:
  assumes "db_update ok srv sid ((k, Some v) # rest) = (Inr u, srv')"
    and "k \<notin> fst ` set rest" and "v \<noteq> JNull"
  shows "session_field srv' sid k = Some v"
proof -
  from assms(1) obtain db where f: "fb_update ok (transactions srv) sid ((k, Some v) # rest) = Inr db"
    and s: "srv' = srv\<lparr>transactions := db\<rparr>"
    by (auto simp: db_update_def split: sum.splits)
  from f have db: "db = (transactions srv)(sid \<mapsto> foldl apply_update
      (case transactions srv sid of None \<Rightarrow> Map.empty | Some s \<Rightarrow> s) ((k, Some v) # rest))"
    by (simp add: fb_update_def split: if_splits)
  from foldl_apply_update_first [OF assms(2,3)] show ?thesis
    by (simp add: s db session_field_def)
qed

lemma verify_manual_200:
  assumes "verify_manual ok now srv (Some r) (Some sid) (Inr (Some ch)) = (200, srv')"
    and "ch_success ch"
  shows "session_field srv' sid ''status'' = Some (JStr ''completed'')"
    and "metrics_tx srv' = metrics_tx srv"
proof -
  let ?rest = "[(''paystackReference'', Some (JStr r)), (''paidAmount'', ch_paidAmount ch),
     (''paidAt'', Some (JNum (Num now))), (''paymentChannel'', ch_channel ch),
     (''verifiedAt'', Some (JNum (Num now)))]"
  from assms obtain u where
    d: "db_update ok srv sid ((''status'', Some (JStr ''completed'')) # ?rest) = (Inr u, srv')"
    by (auto simp: verify_manual_def split: prod.splits sum.splits)
  have n: "''status'' \<notin> fst ` set ?rest" by simp
  from db_update_Inr_first [OF d n] show "session_field srv' sid ''status'' = Some (JStr ''completed'')"
    by simp
  from verify_manual_metrics [of ok now srv "Some r" "Some sid" "Inr (Some ch)"] assms(1)
  show "metrics_tx srv' = metrics_tx srv" by simp
qed

lemmas session_eval =
  session_field_def srv_pending_def event_s1_def charge_ok_def payment_initialize_def
  webhook_paystack_def updateTransactionStatus_def db_update_def fb_update_def storable_def
  num_truthy_def count_status_def verify_manual_def

text \<open>
  C4, as the code has it. When the webhook completes a session twice (both deliveries
  answered with 200), the status of the session is \<^verbatim>\<open>completed\<close> after the first and after
  the second delivery, and the second delivery counts again: \<^verbatim>\<open>completed\<close> is one more and
  \<^verbatim>\<open>pending\<close> one less than after the first. A successful manual verification after
  them leaves the status \<^verbatim>\<open>completed\<close> too; that route writes the status itself and
  leaves the counters as they are.
\<close>

theorem completion_twice_counts_twice:
  assumes "webhook_paystack ok1 now1 srv True (Inr (Some (ref, Some sid, ch1))) = (200, srv1)"
    and "webhook_paystack ok2 now2 srv1 True (Inr (Some (ref, Some sid, ch2))) = (200, srv2)"
    and "verify_manual ok3 now3 srv2 (Some r) (Some sid) (Inr (Some ch3)) = (200, srv3)"
    and "ch_success ch3"
  shows "session_field srv1 sid ''status'' = Some (JStr ''completed'')
    \<and> session_field srv2 sid ''status'' = Some (JStr ''completed'')
    \<and> session_field srv3 sid ''status'' = Some (JStr ''completed'')
    \<and> tx_completed (metrics_tx srv2) = tx_completed (metrics_tx srv1) + 1
    \<and> tx_pending (metrics_tx srv2) = tx_pending (metrics_tx srv1) - 1
    \<and> metrics_tx srv3 = metrics_tx srv2"
  using webhook_paystack_200 [OF assms(1)] webhook_paystack_200 [OF assms(2)]
    verify_manual_200 [OF assms(3,4)]
  by simp

theorem completion_twice_counts_twice_witness:
  "webhook_paystack True 3000 srv_pending True
      (Inr (Some (Some (JStr ''HP-s1-2000''), Some ''s1'', charge_ok)))
     = (200, snd (webhook_paystack True 3000 srv_pending True event_s1))
   \<and> webhook_paystack True 4000 (snd (webhook_paystack True 3000 srv_pending True event_s1)) True
      (Inr (Some (Some (JStr ''HP-s1-2000''), Some ''s1'', charge_ok)))
     = (200, snd (webhook_paystack True 4000
          (snd (webhook_paystack True 3000 srv_pending True event_s1)) True event_s1))
   \<and> fst (verify_manual True 5000
          (snd (webhook_paystack True 4000
             (snd (webhook_paystack True 3000 srv_pending True event_s1)) True event_s1))
          (Some ''HP-s1-2000'') (Some ''s1'') (Inr (Some charge_ok))) = 200
   \<and> ch_success charge_ok
   \<and> session_field (snd (webhook_paystack True 3000 srv_pending True event_s1)) ''s1'' ''status''
       = Some (JStr ''completed'')
   \<and> session_field (snd (webhook_paystack True 4000
          (snd (webhook_paystack True 3000 srv_pending True event_s1)) True event_s1))
         ''s1'' ''status''
       = Some (JStr ''completed'')
   \<and> session_field (snd (verify_manual True 5000
          (snd (webhook_paystack True 4000
             (snd (webhook_paystack True 3000 srv_pending True event_s1)) True event_s1))
          (Some ''HP-s1-2000'') (Some ''s1'') (Inr (Some charge_ok)))) ''s1'' ''status''
       = Some (JStr ''completed'')
   \<and> tx_completed (metrics_tx (snd (webhook_paystack True 4000
          (snd (webhook_paystack True 3000 srv_pending True event_s1)) True event_s1)))
       = tx_completed (metrics_tx (snd (webhook_paystack True 3000 srv_pending True event_s1))) + 1
   \<and> tx_pending (metrics_tx (snd (webhook_paystack True 4000
          (snd (webhook_paystack True 3000 srv_pending True event_s1)) True event_s1)))
       = tx_pending (metrics_tx (snd (webhook_paystack True 3000 srv_pending True event_s1))) - 1
   \<and> metrics_tx (snd (verify_manual True 5000
          (snd (webhook_paystack True 4000
             (snd (webhook_paystack True 3000 srv_pending True event_s1)) True event_s1))
          (Some ''HP-s1-2000'') (Some ''s1'') (Inr (Some charge_ok))))
       = metrics_tx (snd (webhook_paystack True 4000
          (snd (webhook_paystack True 3000 srv_pending True event_s1)) True event_s1))"
proof -
  let ?ev = "Inr (Some (Some (JStr ''HP-s1-2000''), Some ''s1'', charge_ok))
      :: error + (json option \<times> string option \<times> charge) option"
  let ?s1 = "snd (webhook_paystack True 3000 srv_pending True event_s1)"
  let ?s2 = "snd (webhook_paystack True 4000 ?s1 True event_s1)"
  let ?s3 = "snd (verify_manual True 5000 ?s2 (Some ''HP-s1-2000'') (Some ''s1'')
      (Inr (Some charge_ok)))"
  have f1: "fst (webhook_paystack True 3000 srv_pending True ?ev) = 200"
    by (simp add: session_eval)
  have f2: "fst (webhook_paystack True 4000 ?s1 True ?ev) = 200"
    by (simp add: session_eval)
  have f3: "fst (verify_manual True 5000 ?s2 (Some ''HP-s1-2000'') (Some ''s1'')
      (Inr (Some charge_ok))) = 200"
    by (simp add: session_eval)
  have h1: "webhook_paystack True 3000 srv_pending True ?ev = (200, ?s1)"
    using f1 by (simp add: event_s1_def prod_eq_iff)
  have h2: "webhook_paystack True 4000 ?s1 True ?ev = (200, ?s2)"
    using f2 by (simp add: event_s1_def prod_eq_iff)
  have h3: "verify_manual True 5000 ?s2 (Some ''HP-s1-2000'') (Some ''s1'')
      (Inr (Some charge_ok)) = (200, ?s3)"
    using f3 by (simp add: prod_eq_iff)
  have h4: "ch_success charge_ok" by (simp add: charge_ok_def)
  from completion_twice_counts_twice [OF h1 h2 h3 h4] h1 h2 f3 h4
  show ?thesis by blast
qed

text \<open>
  The claim as the specification states it (the counters are the same after the second
  completion as after the first) fails: two deliveries of the same \<^verbatim>\<open>charge.success\<close> event
  for one pending session leave \<^verbatim>\<open>completed = 2\<close> and \<^verbatim>\<open>pending = -1\<close>.
\<close>

theorem webhook_twice_double_counts:
  "metrics_tx (snd (webhook_paystack True 3000 srv_pending True event_s1))
     = \<lparr>tx_total = 1, tx_pending = 0, tx_completed = 1, tx_failed = 0\<rparr>
   \<and> metrics_tx (snd (webhook_paystack True 4000
        (snd (webhook_paystack True 3000 srv_pending True event_s1)) True event_s1))
     = \<lparr>tx_total = 1, tx_pending = - 1, tx_completed = 2, tx_failed = 0\<rparr>"
  by (simp add: session_eval)

section \<open>Properties of the conversion route\<close>

lemma validate_below_minimum:
  assumes "js_lt n (Num (real (minTransaction lims)))"
  shows "validateConversionRequest lims (Some (JNum n)) from to =
    Inl (ValidationError (if js_le n (Num 0) then ''Amount must be greater than 0''
       else ''Amount must be at least '' @ naira @ toLocaleString (minTransaction lims)))"
  using assms by (cases n) (simp_all add: validateConversionRequest_def)

text \<open>
  C8, as the code has it. The handler of \<^verbatim>\<open>POST /api/convert\<close> (src/script.js) rejects
  every request whose amount is a number below the configured minimum with a
  \<^verbatim>\<open>ValidationError\<close> and leaves the state as it was: no session is created, no counter
  moves, nothing is fetched. The message names the minimum when the body passed the
  validators and the amount is positive; it is "Amount must be greater than 0" for an
  amount that is zero or negative, and "Invalid input data" when a validator failed.
\<close>

theorem convert_below_minimum_rejected:
  assumes "rq_amount req = Some (JNum n)" and "js_lt n (Num (real (minTransaction lims)))"
  shows "convert lims acfg pcfg tiers env srv req =
    (Inl (ValidationError
       (if rq_validationErrors req \<noteq> [] then ''Invalid input data''
        else if js_le n (Num 0) then ''Amount must be greater than 0''
        else ''Amount must be at least '' @ naira @ toLocaleString (minTransaction lims))),
     srv)"
  using validate_below_minimum [OF assms(2), of "rq_from req" "rq_to req"] assms(1)
  by (simp add: convert_def)

lemma toLocaleString_1000: "toLocaleString 1000 = ''1,000''"
  by (simp add: toLocaleString_def decimal.simps)

theorem convert_below_minimum_rejected_witness:
  "rq_amount (request_of 500) = Some (JNum (Num 500))
   \<and> js_lt (Num 500) (Num (real (minTransaction limits_script)))
   \<and> convert limits_script agg_script pricing_script tiers_script env_sample srv_pending
        (request_of 500)
      = (Inl (ValidationError
           (if rq_validationErrors (request_of 500) \<noteq> [] then ''Invalid input data''
            else if js_le (Num 500) (Num 0) then ''Amount must be greater than 0''
            else ''Amount must be at least '' @ naira
                   @ toLocaleString (minTransaction limits_script))),
         srv_pending)
   \<and> ''Amount must be at least '' @ naira @ toLocaleString (minTransaction limits_script)
      = ''Amount must be at least '' @ [CHR 0xE2, CHR 0x82, CHR 0xA6] @ ''1,000''
   \<and> rq_validationErrors (request_of 500) = []"
proof -
  have h1: "rq_amount (request_of 500) = Some (JNum (Num 500))" by (simp add: request_of_def)
  have h2: "js_lt (Num 500) (Num (real (minTransaction limits_script)))"
    by (simp add: limits_script_def)
  have e1: "''Amount must be at least '' @ naira @ toLocaleString (minTransaction limits_script)
      = ''Amount must be at least '' @ [CHR 0xE2, CHR 0x82, CHR 0xA6] @ ''1,000''"
    by (simp add: naira_def limits_script_def toLocaleString_1000)
  have e2: "rq_validationErrors (request_of 500) = []" by (simp add: request_of_def)
  from convert_below_minimum_rejected [OF h1 h2, of agg_script pricing_script tiers_script
      env_sample srv_pending] h1 h2 e1 e2
  show ?thesis by blast
qed

text \<open>
  The claim as the specification states it (the message names the minimum for every
  amount below it) fails for the amount 0, which the check before the minimum rejects with
  its own message; and the older server (src/unnamed/part\_002) has no minimum: it accepts
  the amount 500.
\<close>

theorem convert_zero_amount_message:
  "convert limits_script agg_script pricing_script tiers_script env_sample srv_pending
      (request_of 0)
     = (Inl (ValidationError ''Amount must be greater than 0''), srv_pending)
   \<and> ''Amount must be greater than 0''
      \<noteq> ''Amount must be at least '' @ naira @ toLocaleString (minTransaction limits_script)
   \<and> validateConversionRequest_old (Some (JNum (Num 500))) (Some (JStr ''NGN''))
        (Some (JStr ''INR'')) = Inr True"
  by (simp add: convert_def validateConversionRequest_def validateConversionRequest_old_def
      request_of_def limits_script_def)

end
